theory Spec2Isabelle
  imports Complex_Main "HOL-Library.Word" "HOL-Library.Sublist" "HOL-Library.Multiset"
begin

text \<open>
  A model of the ChatWeb client (Vite, React, TypeScript): the parser of answer segments
  and \<open>sendMessage\<close> (src/api/client.ts), the saved settings (src/utils/storage.ts),
  the JSON inspector (src/components/JsonTree.tsx), the onboarding form
  (src/components/Onboarding.tsx) and the rendering and send handler of the
  conversation (src/components/Chat.tsx). Exceptions are values, React state is a
  record passed along, and the built-in functions of the browser are parameters.
\<close>

section \<open>JavaScript strings and values\<close>

text \<open>
  A JavaScript string is a sequence of UTF-16 code units; \<open>length\<close>, \<open>trim\<close>,
  \<open>startsWith\<close>, \<open>includes\<close> and the regular expressions of the program all work on
  code units. \<open>js\<close> writes an ASCII literal of the source as such a string.
\<close>

type_synonym code_unit = "16 word"
type_synonym jsstring = "code_unit list"

definition js :: "string \<Rightarrow> jsstring" where
  "js s = map (\<lambda>c. of_nat (of_char c)) s"

text \<open>
  \<open>String.prototype.trim\<close> removes WhiteSpace and LineTerminator code points from both
  ends (ECMA-262): TAB, LF, VT, FF, CR, SP, NBSP, U+1680, U+2000..U+200A, U+2028, U+2029,
  U+202F, U+205F, U+3000 and U+FEFF. All of them are single code units.
\<close>

definition is_ws :: "code_unit \<Rightarrow> bool" where
  "is_ws c \<longleftrightarrow>
     c = 0x9 \<or> c = 0xA \<or> c = 0xB \<or> c = 0xC \<or> c = 0xD \<or> c = 0x20 \<or> c = 0xA0 \<or>
     c = 0x1680 \<or> (0x2000 \<le> c \<and> c \<le> 0x200A) \<or> c = 0x2028 \<or> c = 0x2029 \<or>
     c = 0x202F \<or> c = 0x205F \<or> c = 0x3000 \<or> c = 0xFEFF"

definition js_trim :: "jsstring \<Rightarrow> jsstring" where
  "js_trim s = rev (dropWhile is_ws (rev (dropWhile is_ws s)))"

text \<open>\<open>s.includes(p)\<close>: \<open>p\<close> occurs in \<open>s\<close> as a contiguous run of code units.\<close>

fun js_includes :: "jsstring \<Rightarrow> jsstring \<Rightarrow> bool" where
  "js_includes [] p = (p = [])"
| "js_includes (c # cs) p = (prefix p (c # cs) \<or> js_includes cs p)"

text \<open>
  The values the program handles: what \<open>JSON.parse\<close> returns, and \<open>undefined\<close> for a
  property that is not there. Numbers are IEEE doubles in the source; the program only
  tests them for truthiness and passes them on, so a number is modelled by its rational
  value. An object is the list of its own properties (key and value), keys distinct.
\<close>

datatype jsval =
    JUndefined
  | JNull
  | JBool bool
  | JNum rat
  | JStr jsstring
  | JArr "jsval list"
  | JObj "(jsstring \<times> jsval) list"

text \<open>Truthiness (\<open>Boolean(v)\<close>, \<open>!v\<close>, \<open>v && ...\<close>, \<open>v || ...\<close>).\<close>

fun truthy :: "jsval \<Rightarrow> bool" where
  "truthy JUndefined = False"
| "truthy JNull = False"
| "truthy (JBool b) = b"
| "truthy (JNum n) = (n \<noteq> 0)"
| "truthy (JStr s) = (s \<noteq> [])"
| "truthy (JArr xs) = True"
| "truthy (JObj kvs) = True"

text \<open>\<open>x && typeof x === 'object'\<close>: arrays and objects, not \<open>null\<close>.\<close>

fun is_object :: "jsval \<Rightarrow> bool" where
  "is_object (JArr xs) = True"
| "is_object (JObj kvs) = True"
| "is_object v = False"

text \<open>\<open>Boolean(v) && typeof v === 'object' && !Array.isArray(v)\<close> (JsonTree.tsx).\<close>

fun isPlainObject :: "jsval \<Rightarrow> bool" where
  "isPlainObject (JObj kvs) = True"
| "isPlainObject v = False"

text \<open>
  Reading a property \<open>v.k\<close> of a value that is neither \<open>null\<close> nor \<open>undefined\<close>. The
  program reads only names that are no array index, not \<open>length\<close> and no prototype
  method (\<open>data\<close>, \<open>disparo\<close>, \<open>answer\<close>, \<open>type\<close>, \<open>message\<close>, \<open>url\<close>, \<open>name\<close>, \<open>id\<close>, ...),
  so on an array or a primitive the result is \<open>undefined\<close>.
\<close>

fun js_get :: "jsval \<Rightarrow> jsstring \<Rightarrow> jsval" where
  "js_get (JObj kvs) k = (case map_of kvs k of Some v \<Rightarrow> v | None \<Rightarrow> JUndefined)"
| "js_get v k = JUndefined"

text \<open>\<open>k in v\<close> for a value that passed \<open>typeof v === 'object'\<close>.\<close>

fun js_in :: "jsstring \<Rightarrow> jsval \<Rightarrow> bool" where
  "js_in k (JObj kvs) = (k \<in> fst ` set kvs)"
| "js_in k v = False"

text \<open>Optional chaining \<open>v?.k\<close>.\<close>

definition opt_get :: "jsval \<Rightarrow> jsstring \<Rightarrow> jsval" where
  "opt_get v k = (if v = JNull \<or> v = JUndefined then JUndefined else js_get v k)"

section \<open>Answer segments (src/api/client.ts)\<close>

text \<open>The object literal \<open>{ type: 'text', message: x }\<close>.\<close>

definition text_item :: "jsstring \<Rightarrow> jsval" where
  "text_item x = JObj [(js ''type'', JStr (js ''text'')), (js ''message'', JStr x)]"

text \<open>The callback of \<open>raw.map\<close> in \<open>toAnswerItems\<close>; \<open>JNull\<close> is its \<open>null\<close>.\<close>

definition toAnswerItem :: "jsval \<Rightarrow> jsval" where
  "toAnswerItem x =
     (case x of
        JStr s \<Rightarrow> text_item s
      | _ \<Rightarrow> if is_object x then x else JNull)"

definition toAnswerItems :: "jsval \<Rightarrow> jsval list" where
  "toAnswerItems raw =
     (case raw of
        JArr xs \<Rightarrow> filter truthy (map toAnswerItem xs)
      | JStr s \<Rightarrow> if js_trim s \<noteq> [] then [text_item s] else []
      | _ \<Rightarrow> if is_object raw then [raw] else [])"

text \<open>
  \<open>extractDisparoItems\<close> reads \<open>data.data\<close> without a guard: it throws a TypeError when
  \<open>data\<close> is \<open>null\<close> or \<open>undefined\<close>. \<open>None\<close> is that exception.
\<close>

definition get_member :: "jsval \<Rightarrow> jsstring \<Rightarrow> jsval option" where
  "get_member v k = (if v = JNull \<or> v = JUndefined then None else Some (js_get v k))"

definition extractDisparoItems :: "jsval \<Rightarrow> jsval list option" where
  "extractDisparoItems data =
     (case get_member data (js ''data'') of
        None \<Rightarrow> None
      | Some d \<Rightarrow>
          (let items = toAnswerItems (opt_get (opt_get d (js ''disparo'')) (js ''answer''))
           in if items \<noteq> [] then Some items
              else Some (toAnswerItems
                     (opt_get (opt_get d (js ''assistant_response'')) (js ''answer'')))))"

section \<open>The browser's built-in functions\<close>

text \<open>
  The program calls built-in functions of the browser whose code is not part of the
  repository. They are parameters of the model, collected in one record; a function that
  can throw returns \<open>None\<close> where it throws. A parsed URL is kept as the part the program
  never touches (scheme, authority and path), the list of its query parameters (what
  \<open>url.searchParams\<close> shows, in order) and its fragment.
\<close>

record url =
  u_base :: jsstring
  u_params :: "(jsstring \<times> jsstring) list"
  u_hash :: jsstring

text \<open>The native exceptions the model can meet, by the place that throws them.\<close>

datatype native =
    NullRead \<comment> \<open>TypeError: a property of \<open>null\<close> is read\<close>
  | NotPrimitive \<comment> \<open>TypeError: \<open>String(v)\<close> of an object that has no primitive value\<close>
  | URIMalformed \<comment> \<open>URIError of \<open>encodeURIComponent\<close> (a lone surrogate)\<close>
  | FetchFailed \<comment> \<open>TypeError: \<open>fetch\<close> rejects (network failure)\<close>

record platform =
  JSON_parse :: "jsstring \<Rightarrow> jsval option" \<comment> \<open>\<open>None\<close>: SyntaxError\<close>
  JSON_stringify :: "jsval \<Rightarrow> jsstring" \<comment> \<open>\<open>JSON.stringify(v)\<close>, of a value made of parsed JSON\<close>
  JSON_stringify2 :: "jsval \<Rightarrow> jsstring" \<comment> \<open>\<open>JSON.stringify(v, null, 2)\<close>\<close>
  encodeURIComponent :: "jsstring \<Rightarrow> jsstring option" \<comment> \<open>\<open>None\<close>: URIError\<close>
  URL_new :: "jsstring \<Rightarrow> jsstring option \<Rightarrow> url option" \<comment> \<open>\<open>new URL(href, base)\<close>; \<open>None\<close>: TypeError\<close>
  URL_href :: "url \<Rightarrow> jsstring" \<comment> \<open>\<open>url.toString()\<close>\<close>
  localeCompare :: "jsstring \<Rightarrow> jsstring \<Rightarrow> int" \<comment> \<open>\<open>a.localeCompare(b)\<close>\<close>
  ToString :: "jsval \<Rightarrow> jsstring option" \<comment> \<open>\<open>String(v)\<close> of a value that is no string\<close>
  Date_parse :: "jsstring \<Rightarrow> rat option" \<comment> \<open>\<open>None\<close>: NaN\<close>
  toLowerCase :: "jsstring \<Rightarrow> jsstring"
  engine_message :: "native \<Rightarrow> jsstring" \<comment> \<open>the \<open>message\<close> of a native exception\<close>

text \<open>\<open>URLSearchParams\<close>: \<open>has\<close>, \<open>get\<close>, \<open>delete\<close> and \<open>set\<close> (URL Standard). \<open>set\<close> changes the
  first pair of that name and removes the others, or appends a pair when there is none.\<close>

definition usp_has :: "(jsstring \<times> jsstring) list \<Rightarrow> jsstring \<Rightarrow> bool" where
  "usp_has ps k \<longleftrightarrow> k \<in> fst ` set ps"

definition usp_get :: "(jsstring \<times> jsstring) list \<Rightarrow> jsstring \<Rightarrow> jsstring option" where
  "usp_get ps k = map_of ps k"

definition usp_delete :: "(jsstring \<times> jsstring) list \<Rightarrow> jsstring \<Rightarrow> (jsstring \<times> jsstring) list" where
  "usp_delete ps k = filter (\<lambda>p. fst p \<noteq> k) ps"

fun usp_set :: "(jsstring \<times> jsstring) list \<Rightarrow> jsstring \<Rightarrow> jsstring \<Rightarrow> (jsstring \<times> jsstring) list" where
  "usp_set [] k v = [(k, v)]"
| "usp_set (p # ps) k v =
     (if fst p = k then (k, v) # usp_delete ps k else p # usp_set ps k v)"

text \<open>\<open>window.location\<close>: the address of the page and its origin.\<close>

record window =
  location_href :: jsstring
  location_origin :: jsstring

section \<open>Rendering an answer (src/components/Chat.tsx)\<close>

text \<open>
  The source of \<open>Chat.tsx\<close> is the part of src/types.ts from line 76 to line 1094, the
  revision of the component that tracks the thread id; the model follows this revision.
\<close>

text \<open>The loop of \<open>tryParseDisparoItemsFromText\<close> over a parsed array, pushing onto \<open>out\<close>.\<close>

fun push_items :: "jsval list \<Rightarrow> jsval list \<Rightarrow> jsval list" where
  "push_items out [] = out"
| "push_items out (it # rest) =
     push_items
       (case it of
          JStr s \<Rightarrow> out @ [text_item s]
        | _ \<Rightarrow> if is_object it then out @ [it] else out)
       rest"

text \<open>
  The \<open>try\<close> block of \<open>tryParseDisparoItemsFromText\<close>: \<open>Inl SyntaxError\<close> when
  \<open>JSON.parse\<close> throws, \<open>Inr (Some r)\<close> when the block returns \<open>r\<close> (\<open>None\<close> is \<open>null\<close>),
  \<open>Inr None\<close> when it ends without a \<open>return\<close>.
\<close>

datatype exn = SyntaxError

definition parse_items_try :: "platform \<Rightarrow> jsstring \<Rightarrow> exn + jsval list option option" where
  "parse_items_try pf t =
     (case JSON_parse pf t of
        None \<Rightarrow> Inl SyntaxError
      | Some parsed \<Rightarrow>
          (case parsed of
             JArr xs \<Rightarrow>
               (let out = push_items [] xs in Inr (Some (if out \<noteq> [] then Some out else None)))
           | _ \<Rightarrow> if is_object parsed then Inr (Some (Some [parsed])) else Inr None))"

text \<open>
  \<open>tryParseDisparoItemsFromText\<close>, with what the caller of the function can see: \<open>Inl\<close> an
  exception that leaves the function, \<open>Inr None\<close> the result \<open>null\<close>, \<open>Inr (Some items)\<close> a
  list of segments. The \<open>catch\<close> is empty, and the \<open>return null\<close> after it follows both
  an exception and a block that ends without a \<open>return\<close>.
\<close>

definition tryParseDisparoItemsFromText :: "platform \<Rightarrow> jsstring \<Rightarrow> exn + jsval list option" where
  "tryParseDisparoItemsFromText pf text =
     (if text = [] then Inr None
      else let t = js_trim text in
        if t = [] then Inr None
        else if \<not> (prefix (js ''{'') t \<or> prefix (js ''['') t) then Inr None
        else if \<not> js_includes t (js ''\"type\"'') then Inr None
        else (case parse_items_try pf t of
                Inl e \<Rightarrow> Inr None
              | Inr (Some r) \<Rightarrow> Inr r
              | Inr None \<Rightarrow> Inr None))"

definition withRedirectUrlParam :: "platform \<Rightarrow> window \<Rightarrow> jsstring \<Rightarrow> jsstring \<Rightarrow> jsstring" where
  "withRedirectUrlParam pf w href redirectUrl =
     (if href = [] then href
      else
        let base = (if location_origin w \<noteq> [] then location_origin w else js ''http://localhost'')
        in case URL_new pf href (Some base) of
             None \<Rightarrow> href
           | Some u \<Rightarrow>
               if usp_has (u_params u) (js ''redirect_url'') then URL_href pf u
               else URL_href pf
                      (u\<lparr>u_params := usp_set (u_params u) (js ''redirect_url'') redirectUrl\<rparr>))"

text \<open>
  What \<open>MessageContent\<close> renders for one item: a text block, a link (the optional
  message above it, its \<open>href\<close> and its label), the JSON text of an item it does not
  know, or a nested \<open>MessageContent\<close>.
\<close>

datatype rnode =
    RText jsstring
  | RLink "jsstring option" jsstring jsval
  | RJson jsstring
  | RNested "rnode list"

text \<open>The \<open>href\<close> computed in the \<open>cta_url\<close> branch: a string, or the \<open>url\<close> as it is.\<close>

definition cta_href :: "platform \<Rightarrow> window \<Rightarrow> jsval \<Rightarrow> jsval" where
  "cta_href pf w url =
     (case url of
        JStr u \<Rightarrow>
          if location_href w \<noteq> [] \<and> u \<noteq> []
          then JStr (withRedirectUrlParam pf w u (location_href w))
          else url
      | _ \<Rightarrow> url)"

text \<open>The \<open>cta_url\<close> branch: \<open>None\<close> when it falls through to the JSON text.\<close>

definition cta_link :: "platform \<Rightarrow> window \<Rightarrow> jsval \<Rightarrow> rnode option" where
  "cta_link pf w it =
     (let msg = js_get it (js ''message'');
          display = (if truthy (js_get it (js ''display'')) then js_get it (js ''display'')
                     else JStr (js ''Abrir link''))
      in case cta_href pf w (js_get it (js ''url'')) of
           JStr href \<Rightarrow>
             if href \<noteq> []
             then Some (RLink (case msg of
                                JStr m \<Rightarrow> if js_trim m \<noteq> [] then Some m else None
                              | _ \<Rightarrow> None) href display)
             else None
         | _ \<Rightarrow> None)"

text \<open>
  Rendering either gives nodes or fails: with an exception that nothing caught, or
  because the nesting allowed by the model was used up (see \<open>MessageContent\<close>).
\<close>

datatype failure = Uncaught exn | NestingLimit

text \<open>
  One item of \<open>items.map\<close>; \<open>nested\<close> renders the inner \<open>MessageContent\<close>. The result is
  the list of nodes of the item (empty where the callback returns \<open>null\<close>).
\<close>

definition render_item ::
  "platform \<Rightarrow> window \<Rightarrow> (jsval list \<Rightarrow> failure + rnode list) \<Rightarrow> jsval \<Rightarrow> failure + rnode list" where
  "render_item pf w nested it =
     (if \<not> is_object it then Inr []
      else if js_get it (js ''type'') = JStr (js ''text'') then
        (case js_get it (js ''message'') of
           JStr msg \<Rightarrow>
             if msg \<noteq> [] then
               (case tryParseDisparoItemsFromText pf msg of
                  Inl e \<Rightarrow> Inl (Uncaught e)
                | Inr (Some parsedItems) \<Rightarrow>
                    if parsedItems \<noteq> []
                    then map_sum id (\<lambda>r. [RNested r]) (nested parsedItems)
                    else Inr [RText msg]
                | Inr None \<Rightarrow> Inr [RText msg])
             else Inr []
         | _ \<Rightarrow> Inr [])
      else
        (case (if js_get it (js ''type'') = JStr (js ''cta_url'') then cta_link pf w it else None) of
           Some node \<Rightarrow> Inr [node]
         | None \<Rightarrow> Inr [RJson (JSON_stringify2 pf it)]))"

text \<open>The nodes of all items in order, or the first failure.\<close>

fun collect :: "(failure + rnode list) list \<Rightarrow> failure + rnode list" where
  "collect [] = Inr []"
| "collect (r # rs) =
     (case r of
        Inl e \<Rightarrow> Inl e
      | Inr ns \<Rightarrow> (case collect rs of Inl e \<Rightarrow> Inl e | Inr ms \<Rightarrow> Inr (ns @ ms)))"

text \<open>
  \<open>MessageContent\<close> calls itself on the segments parsed out of a text. With an arbitrary
  \<open>JSON.parse\<close> nothing bounds that nesting, so the model counts it: the third argument
  is the number of nested renderings allowed, and \<open>Inl NestingLimit\<close> says that it was
  not enough.
\<close>

fun MessageContent :: "platform \<Rightarrow> window \<Rightarrow> nat \<Rightarrow> jsval list \<Rightarrow> failure + rnode list" where
  "MessageContent pf w 0 items = Inl NestingLimit"
| "MessageContent pf w (Suc n) items =
     collect (map (render_item pf w (\<lambda>xs. MessageContent pf w n xs)) items)"

section \<open>Sending a message (src/api/client.ts)\<close>

record ChatSettings =
  companyId :: jsstring
  customerPhone :: jsstring
  customerName :: "jsstring option"
  apiBaseUrl :: "jsstring option"

text \<open>\<open>s.replace(/\/+$/, '')\<close>: the run of slashes at the end of the string is removed.\<close>

definition strip_trailing_slashes :: "jsstring \<Rightarrow> jsstring" where
  "strip_trailing_slashes s = rev (dropWhile (\<lambda>c. c = 0x2F) (rev s))"

definition normalizeBaseUrl :: "jsstring option \<Rightarrow> jsstring" where
  "normalizeBaseUrl baseUrl =
     (let trimmed = js_trim (case baseUrl of Some b \<Rightarrow> b | None \<Rightarrow> [])
      in if trimmed = [] then [] else strip_trailing_slashes trimmed)"

text \<open>A non-negative integer in a template literal (\<open>${resp.status}\<close>, \<open>[${index}]\<close>).\<close>

fun show_nat :: "nat \<Rightarrow> jsstring" where
  "show_nat n =
     (if n < 10 then [of_nat (48 + n)]
      else show_nat (n div 10) @ [of_nat (48 + n mod 10)])"

declare show_nat.simps [simp del]

text \<open>
  What the program throws: a native exception of the engine, or the \<open>Error\<close> that
  \<open>sendMessage\<close> builds, with the fields it attaches to it.
\<close>

record send_failure =
  f_message :: jsstring
  f_response :: jsval
  f_status :: nat
  f_rawText :: "jsstring option"
  f_url :: jsstring
  f_payload :: "(jsstring \<times> jsval) list"
  f_timingMs :: rat

datatype js_error = Native native | SendFailure send_failure

definition buildMessagesUrl :: "platform \<Rightarrow> ChatSettings \<Rightarrow> js_error + jsstring" where
  "buildMessagesUrl pf settings =
     (let base = normalizeBaseUrl (apiBaseUrl settings)
      in case encodeURIComponent pf (companyId settings) of
           None \<Rightarrow> Inl (Native URIMalformed)
         | Some c \<Rightarrow> Inr (base @ js ''/v1/messages/simple/'' @ c))"

text \<open>The \<open>payload\<close> object of \<open>sendMessage\<close>, as the list of its properties.\<close>

definition send_payload :: "ChatSettings \<Rightarrow> jsstring \<Rightarrow> (jsstring \<times> jsval) list" where
  "send_payload settings message =
     [(js ''message'', JStr message), (js ''customer_phone'', JStr (customerPhone settings))] @
     (case customerName settings of
        None \<Rightarrow> []
      | Some n \<Rightarrow> if js_trim n \<noteq> [] then [(js ''customer_name'', JStr (js_trim n))] else [])"

text \<open>
  The network is a parameter: \<open>fetch\<close> maps the request to a rejection or to a response
  with its status and its body text (\<open>None\<close> when reading the body fails). \<open>resp.ok\<close> is
  a status from 200 to 299 (Fetch Standard).
\<close>

record http_request =
  req_url :: jsstring
  req_method :: jsstring
  req_headers :: "(jsstring \<times> jsstring) list"
  req_body :: jsstring

datatype fetch_outcome = Rejected | Response nat "jsstring option"

definition resp_ok :: "nat \<Rightarrow> bool" where
  "resp_ok status \<longleftrightarrow> 200 \<le> status \<and> status \<le> 299"

text \<open>The request \<open>sendMessage\<close> hands to \<open>fetch\<close>.\<close>

definition send_request :: "platform \<Rightarrow> ChatSettings \<Rightarrow> jsstring \<Rightarrow> js_error + http_request" where
  "send_request pf settings message =
     (case buildMessagesUrl pf settings of
        Inl e \<Rightarrow> Inl e
      | Inr url \<Rightarrow>
          Inr \<lparr>req_url = url, req_method = js ''POST'',
                req_headers = [(js ''Content-Type'', js ''application/json'')],
               req_body = JSON_stringify pf (JObj (send_payload settings message))\<rparr>)"

fun js_join :: "jsstring \<Rightarrow> jsstring list \<Rightarrow> jsstring" where
  "js_join sep [] = []"
| "js_join sep [x] = x"
| "js_join sep (x # y # ys) = x @ sep @ js_join sep (y # ys)"

definition itemsToText :: "jsval list \<Rightarrow> jsstring" where
  "itemsToText items =
     js_trim (js_join (js [CHR 0x0A, CHR 0x0A])
       (filter (\<lambda>t. t \<noteq> [])
          (map (\<lambda>it.
                 if is_object it \<and> js_in (js ''type'') it \<and> js_get it (js ''type'') = JStr (js ''text'')
                 then (case js_get it (js ''message'') of JStr m \<Rightarrow> m | _ \<Rightarrow> [])
                 else [])
               items)))"

text \<open>\<open>extractAssistantAnswerText\<close>; \<open>None\<close> is \<open>null\<close>. \<open>data\<close> is not \<open>null\<close> where it is called.\<close>

definition extractAssistantAnswerText :: "platform \<Rightarrow> jsval \<Rightarrow> jsstring option" where
  "extractAssistantAnswerText pf data =
     (let raw = opt_get (opt_get (js_get data (js ''data'')) (js ''assistant_response'')) (js ''answer'')
      in case raw of
           JStr s \<Rightarrow> Some s
         | JNull \<Rightarrow> None
         | JUndefined \<Rightarrow> None
         | _ \<Rightarrow> Some (JSON_stringify pf raw))"

record send_result =
  answerText :: jsstring
  answerItems :: "jsval list"
  raw :: jsval
  status :: nat
  ok :: bool
  request_url :: jsstring
  request_payload :: "(jsstring \<times> jsval) list"
  rawText :: "jsstring option"
  timingMs :: rat

text \<open>The object \<open>sendMessage\<close> puts in place of a body that is no JSON.\<close>

definition invalid_response :: "nat \<Rightarrow> jsval" where
  "invalid_response st =
     JObj [(js ''success'', JBool False), (js ''provider'', JStr (js ''simple'')),
           (js ''error'', JStr (js ''Resposta inv'' @ [0xE1] @ js ''lida ('' @ show_nat st @ js '')''))]"

text \<open>\<open>new Error(msg)\<close> takes \<open>String(msg)\<close> as the message.\<close>

definition js_String :: "platform \<Rightarrow> jsval \<Rightarrow> jsstring option" where
  "js_String pf v = (case v of JStr s \<Rightarrow> Some s | _ \<Rightarrow> ToString pf v)"

text \<open>
  The \<open>try\<close> of \<open>sendMessage\<close> around \<open>resp.text()\<close> and \<open>JSON.parse\<close>: the value parsed
  (\<open>None\<close> when either of them throws), and \<open>data\<close>, which is the substitute object then.
\<close>

definition parse_body :: "platform \<Rightarrow> jsstring option \<Rightarrow> jsval option" where
  "parse_body pf body = (case body of None \<Rightarrow> None | Some txt \<Rightarrow> JSON_parse pf txt)"

definition response_data :: "platform \<Rightarrow> nat \<Rightarrow> jsstring option \<Rightarrow> jsval" where
  "response_data pf st body = (case parse_body pf body of None \<Rightarrow> invalid_response st | Some d \<Rightarrow> d)"

text \<open>
  \<open>sendMessage\<close>. \<open>t0\<close> and \<open>t1\<close> are the two readings of \<open>performance.now()\<close>. The
  property reads \<open>data.success\<close> and \<open>data.error\<close> have no guard, so they throw when the
  body is the JSON text \<open>null\<close>.
\<close>

definition sendMessage ::
  "platform \<Rightarrow> (http_request \<Rightarrow> fetch_outcome) \<Rightarrow> rat \<Rightarrow> rat \<Rightarrow> ChatSettings \<Rightarrow> jsstring
     \<Rightarrow> js_error + send_result" where
  "sendMessage pf fetch t0 t1 settings message =
     (case send_request pf settings message of
        Inl e \<Rightarrow> Inl e
      | Inr req \<Rightarrow>
          (case fetch req of
             Rejected \<Rightarrow> Inl (Native FetchFailed)
           | Response st body \<Rightarrow>
               (let data = response_data pf st body;
                    payload = send_payload settings message
                in if \<not> resp_ok st \<or> get_member data (js ''success'') = Some (JBool False) then
                     (case get_member data (js ''error'') of
                        None \<Rightarrow> Inl (Native NullRead)
                      | Some err \<Rightarrow>
                          (case js_String pf
                                  (if truthy err then err
                                   else JStr (js ''Erro HTTP '' @ show_nat st)) of
                             None \<Rightarrow> Inl (Native NotPrimitive)
                           | Some msg \<Rightarrow>
                               Inl (SendFailure
                                 \<lparr>f_message = msg, f_response = data, f_status = st,
                                  f_rawText = body, f_url = req_url req, f_payload = payload,
                                  f_timingMs = max 0 (t1 - t0)\<rparr>)))
                   else if get_member data (js ''success'') = None then Inl (Native NullRead)
                   else
                     (case extractDisparoItems data of
                        None \<Rightarrow> Inl (Native NullRead)
                      | Some items \<Rightarrow>
                          Inr \<lparr>answerText =
                                 (if itemsToText items \<noteq> [] then itemsToText items
                                  else case extractAssistantAnswerText pf data of
                                         Some s \<Rightarrow> s
                                       | None \<Rightarrow> []),
                               answerItems = items, raw = data, status = st, ok = resp_ok st,
                               request_url = req_url req, request_payload = payload,
                               rawText = body, timingMs = max 0 (t1 - t0)\<rparr>))))"

section \<open>Saved settings (src/utils/storage.ts)\<close>

text \<open>
  \<open>localStorage\<close> is a map from keys to strings. A settings object is stored as the
  object of its properties; a property whose value is \<open>undefined\<close> is one that is not
  there, for \<open>JSON.stringify\<close> and for the type \<open>ChatSettings\<close> alike.
\<close>

type_synonym storage = "jsstring \<rightharpoonup> jsstring"

definition KEY :: jsstring where
  "KEY = js ''chatweb:settings:v1''"

definition settings_object :: "ChatSettings \<Rightarrow> jsval" where
  "settings_object s =
     JObj ([(js ''companyId'', JStr (companyId s)), (js ''customerPhone'', JStr (customerPhone s))] @
           (case customerName s of None \<Rightarrow> [] | Some n \<Rightarrow> [(js ''customerName'', JStr n)]) @
           (case apiBaseUrl s of None \<Rightarrow> [] | Some b \<Rightarrow> [(js ''apiBaseUrl'', JStr b)]))"

text \<open>\<open>loadSettings\<close>: \<open>JNull\<close> is its \<open>null\<close>; the value parsed is returned as it is.\<close>

definition loadSettings :: "platform \<Rightarrow> storage \<Rightarrow> jsval" where
  "loadSettings pf store =
     (case store KEY of
        None \<Rightarrow> JNull
      | Some rawv \<Rightarrow>
          if rawv = [] then JNull
          else (case JSON_parse pf rawv of None \<Rightarrow> JNull | Some v \<Rightarrow> v))"

definition saveSettings :: "platform \<Rightarrow> jsval \<Rightarrow> storage \<Rightarrow> storage" where
  "saveSettings pf s store = store(KEY \<mapsto> JSON_stringify pf s)"

definition clearSettings :: "storage \<Rightarrow> storage" where
  "clearSettings store = store(KEY := None)"

section \<open>The JSON inspector (src/components/JsonTree.tsx)\<close>

text \<open>
  \<open>[...keys].sort((a, b) => a.localeCompare(b))\<close>. \<open>Array.prototype.sort\<close> is stable; the
  model is the stable insertion sort by the sign of the comparator.
\<close>

fun insert_by :: "('a \<Rightarrow> 'a \<Rightarrow> int) \<Rightarrow> 'a \<Rightarrow> 'a list \<Rightarrow> 'a list" where
  "insert_by cmp x [] = [x]"
| "insert_by cmp x (y # ys) = (if cmp x y \<le> 0 then x # y # ys else y # insert_by cmp x ys)"

definition sort_by :: "('a \<Rightarrow> 'a \<Rightarrow> int) \<Rightarrow> 'a list \<Rightarrow> 'a list" where
  "sort_by cmp xs = foldr (insert_by cmp) xs []"

definition sortKeys :: "platform \<Rightarrow> jsstring list \<Rightarrow> jsstring list" where
  "sortKeys pf keys = sort_by (localeCompare pf) keys"

definition getNamedArrayLabel :: "jsval \<Rightarrow> nat \<Rightarrow> jsstring" where
  "getNamedArrayLabel item index =
     (if isPlainObject item then
        (case js_get item (js ''name'') of
           JStr nm \<Rightarrow>
             if js_trim nm \<noteq> [] then js ''['' @ js_trim nm @ js '']''
             else (case js_get item (js ''id'') of
                     JStr i \<Rightarrow>
                       if js_trim i \<noteq> [] then js ''['' @ js_trim i @ js '']''
                       else js ''['' @ show_nat index @ js '']''
                   | _ \<Rightarrow> js ''['' @ show_nat index @ js '']'')
         | _ \<Rightarrow>
             (case js_get item (js ''id'') of
                JStr i \<Rightarrow>
                  if js_trim i \<noteq> [] then js ''['' @ js_trim i @ js '']''
                  else js ''['' @ show_nat index @ js '']''
              | _ \<Rightarrow> js ''['' @ show_nat index @ js '']''))
      else js ''['' @ show_nat index @ js '']'')"

text \<open>
  The \<open>entries\<close> of an expanded \<open>Node\<close>, in the order in which they are rendered.
  \<open>Object.keys\<close> gives the keys of the object, here in the order of the list.
\<close>

record entry =
  e_key :: jsstring
  e_value :: jsval
  e_label :: jsstring

definition node_entries :: "platform \<Rightarrow> jsval \<Rightarrow> entry list" where
  "node_entries pf v =
     (case v of
        JArr xs \<Rightarrow>
          map (\<lambda>(i, x). \<lparr>e_key = show_nat i, e_value = x, e_label = getNamedArrayLabel x i\<rparr>)
              (enumerate 0 xs)
      | JObj kvs \<Rightarrow>
          map (\<lambda>k. \<lparr>e_key = k, e_value = js_get v k, e_label = k\<rparr>)
              (sortKeys pf (map fst kvs))
      | _ \<Rightarrow> [])"

text \<open>
  The label of an array entry in the words of the specification: the name when it is a
  non-blank string, else the id when it is a non-blank string, else the index. The
  label shows the chosen text trimmed and in square brackets.
\<close>

definition non_blank_string :: "jsval \<Rightarrow> jsstring option" where
  "non_blank_string v = (case v of JStr s \<Rightarrow> if js_trim s \<noteq> [] then Some s else None | _ \<Rightarrow> None)"

definition array_label_spec :: "jsval \<Rightarrow> nat \<Rightarrow> jsstring" where
  "array_label_spec item index =
     js ''['' @
     (case non_blank_string (js_get item (js ''name'')) of
        Some nm \<Rightarrow> js_trim nm
      | None \<Rightarrow>
          (case non_blank_string (js_get item (js ''id'')) of
             Some i \<Rightarrow> js_trim i
           | None \<Rightarrow> show_nat index)) @
     js '']''"

text \<open>
  The lexicographic order of the key strings, in the words of the specification: the
  strings are compared code unit by code unit, and a proper prefix comes first. The
  result is negative, zero or positive as for a comparator of \<open>sort\<close>.
\<close>

fun compare_units :: "jsstring \<Rightarrow> jsstring \<Rightarrow> int" where
  "compare_units [] [] = 0"
| "compare_units [] (d # ds) = - 1"
| "compare_units (c # cs) [] = 1"
| "compare_units (c # cs) (d # ds) =
     (if c < d then - 1 else if d < c then 1 else compare_units cs ds)"

section \<open>The onboarding form (src/components/Onboarding.tsx)\<close>

text \<open>\<open>value.replace(/[^\d]/g, '')\<close>: \<open>\d\<close> is a digit from 0 to 9.\<close>

definition is_digit :: "code_unit \<Rightarrow> bool" where
  "is_digit c \<longleftrightarrow> 0x30 \<le> c \<and> c \<le> 0x39"

definition normalizeDigits :: "jsstring \<Rightarrow> jsstring" where
  "normalizeDigits v = filter is_digit v"

datatype api_env = Env_DEV | Env_PROD

text \<open>The state of the form that the start button reads.\<close>

record form =
  form_apiEnv :: api_env
  form_companyId :: jsstring
  form_customerPhone :: jsstring
  form_customerName :: jsstring
  form_starting :: bool

definition form_apiBaseUrl :: "form \<Rightarrow> jsstring" where
  "form_apiBaseUrl f = (case form_apiEnv f of Env_DEV \<Rightarrow> [] | Env_PROD \<Rightarrow> js ''https://api.zibb.com.br'')"

definition canStart :: "form \<Rightarrow> bool" where
  "canStart f \<longleftrightarrow>
     length (js_trim (form_companyId f)) > 0 \<and> length (normalizeDigits (form_customerPhone f)) \<ge> 8"

text \<open>
  A click on the start button: nothing happens while the button is disabled
  (\<open>disabled={!canStart || starting}\<close>); otherwise \<open>onStart\<close> receives these settings,
  whether the look-up of the open thread succeeds or fails.
\<close>

definition start_click :: "form \<Rightarrow> ChatSettings option" where
  "start_click f =
     (if \<not> canStart f \<or> form_starting f then None
      else Some \<lparr>companyId = js_trim (form_companyId f),
                 customerPhone = normalizeDigits (form_customerPhone f),
                 customerName = (if js_trim (form_customerName f) \<noteq> []
                                 then Some (js_trim (form_customerName f)) else None),
                 apiBaseUrl = Some (form_apiBaseUrl f)\<rparr>)"

section \<open>The conversation (src/components/Chat.tsx)\<close>

datatype ChatRole = User | Assistant | System

record ApiTrace =
  trace_url :: jsstring
  trace_method :: jsstring
  trace_payload :: "(jsstring \<times> jsval) list"
  trace_status :: nat
  trace_ok :: bool
  trace_json :: jsval
  trace_rawText :: "jsstring option"
  trace_timingMs :: rat

record ChatMessage =
  msg_id :: jsstring
  msg_role :: ChatRole
  msg_text :: jsstring
  msg_createdAt :: rat
  msg_answerItems :: "jsval list option"
  msg_trace :: "ApiTrace option"

text \<open>
  \<open>getThreadIdFromLocation\<close>: the query parameters of the address of the page are those
  of its parsed URL. \<open>a || b\<close> on strings takes \<open>b\<close> when \<open>a\<close> is missing or empty.
\<close>

definition str_or :: "jsstring option \<Rightarrow> jsstring option \<Rightarrow> jsstring option" where
  "str_or a b = (case a of Some x \<Rightarrow> if x \<noteq> [] then a else b | None \<Rightarrow> b)"

definition str_or_empty :: "jsstring option \<Rightarrow> jsstring" where
  "str_or_empty a = (case a of Some x \<Rightarrow> x | None \<Rightarrow> [])"

definition non_empty :: "jsstring \<Rightarrow> jsstring option" where
  "non_empty x = (if x \<noteq> [] then Some x else None)"

definition getThreadIdFromLocation :: "platform \<Rightarrow> jsstring \<Rightarrow> jsstring option" where
  "getThreadIdFromLocation pf href =
     (case URL_new pf href None of
        None \<Rightarrow> None
      | Some u \<Rightarrow>
          non_empty (js_trim (str_or_empty
            (str_or (usp_get (u_params u) (js ''thread_id''))
                    (usp_get (u_params u) (js ''threadId''))))))"

text \<open>
  \<open>setThreadIdInLocation\<close>: the new address of the page, and whether the event
  \<open>chatweb:thread_id_changed\<close> was dispatched.
\<close>

definition setThreadIdInLocation :: "platform \<Rightarrow> jsstring option \<Rightarrow> jsstring \<Rightarrow> jsstring \<times> bool" where
  "setThreadIdInLocation pf threadId href =
     (case URL_new pf href None of
        None \<Rightarrow> (href, False)
      | Some u \<Rightarrow>
          (let tid = js_trim (str_or_empty threadId);
               prev = js_trim (str_or_empty (usp_get (u_params u) (js ''thread_id'')));
               ps1 = (if tid \<noteq> [] then usp_set (u_params u) (js ''thread_id'') tid
                      else usp_delete (u_params u) (js ''thread_id''));
               ps2 = (if usp_has ps1 (js ''threadId'') then usp_delete ps1 (js ''threadId'') else ps1);
               new = URL_href pf (u\<lparr>u_params := ps2\<rparr>)
           in if prev = tid \<and> href = new then (href, False) else (new, True)))"

definition itemsToRenderableText :: "platform \<Rightarrow> jsval list \<Rightarrow> jsstring" where
  "itemsToRenderableText pf items =
     (if items = [] then []
      else js_trim (js_join (js [CHR 0x0A, CHR 0x0A])
             (map (\<lambda>it.
                    case (if is_object it \<and> js_get it (js ''type'') = JStr (js ''text'')
                          then js_get it (js ''message'') else JUndefined) of
                      JStr m \<Rightarrow> m
                    | _ \<Rightarrow> JSON_stringify2 pf it)
                  items)))"

record ConversationContext =
  ctx_assistantId :: "jsstring option"
  ctx_customerId :: "jsstring option"
  ctx_companyId :: "jsstring option"
  ctx_threadId :: "jsstring option"
  ctx_platform :: "jsstring option"
  ctx_assistantExternalId :: "jsstring option"
  ctx_threadAssistantExternalId :: "jsstring option"

text \<open>\<open>getString\<close>: \<open>None\<close> is \<open>undefined\<close>, also where \<open>String(v)\<close> throws.\<close>

definition getString :: "platform \<Rightarrow> jsval \<Rightarrow> jsstring \<Rightarrow> jsstring option" where
  "getString pf obj key =
     (case opt_get obj key of
        JUndefined \<Rightarrow> None
      | JNull \<Rightarrow> None
      | v \<Rightarrow> js_String pf v)"

definition str_truthy :: "jsstring option \<Rightarrow> bool" where
  "str_truthy a \<longleftrightarrow> (case a of Some x \<Rightarrow> x \<noteq> [] | None \<Rightarrow> False)"

definition extractConversationContextFromResponseJson ::
  "platform \<Rightarrow> jsval \<Rightarrow> ConversationContext option" where
  "extractConversationContextFromResponseJson pf json =
     (if \<not> is_object json then None
      else let data = js_get json (js ''data'') in
        if \<not> is_object data then None
        else
          let ctx =
            \<lparr>ctx_assistantId = str_or (getString pf data (js ''assistant_id''))
                                      (getString pf data (js ''thread_current_assistant_id'')),
             ctx_customerId = getString pf data (js ''customer_id''),
             ctx_companyId = getString pf data (js ''company_id''),
             ctx_threadId = getString pf data (js ''thread_id''),
             ctx_platform =
               non_empty (toLowerCase pf (str_or_empty (str_or (getString pf data (js ''platform'')) (Some [])))),
             ctx_assistantExternalId = getString pf data (js ''external_id''),
             ctx_threadAssistantExternalId = getString pf data (js ''thread_assistant_external_id'')\<rparr>
          in if str_truthy (ctx_assistantId ctx) \<or> str_truthy (ctx_customerId ctx) \<or>
                str_truthy (ctx_companyId ctx) \<or> str_truthy (ctx_platform ctx) \<or>
                str_truthy (ctx_assistantExternalId ctx) \<or>
                str_truthy (ctx_threadAssistantExternalId ctx)
             then Some ctx else None)"

text \<open>
  \<open>extractOpenMessagesFromSteps\<close>: the text and the time of every step that shows an
  open message, sorted by time (stable). \<open>now\<close> is the reading of \<open>Date.now()\<close> taken for
  a step whose start is no date.
\<close>

definition string_or_empty :: "jsval \<Rightarrow> jsstring" where
  "string_or_empty v = (case v of JStr s \<Rightarrow> s | _ \<Rightarrow> [])"

fun open_steps :: "platform \<Rightarrow> rat \<Rightarrow> jsval list \<Rightarrow> (jsstring \<times> rat) list" where
  "open_steps pf now [] = []"
| "open_steps pf now (s # rest) =
     (let name = string_or_empty (opt_get s (js ''name''))
      in if \<not> prefix (js ''tool_open_message.'') name \<and> \<not> prefix (js ''assistant_open_message.'') name
         then open_steps pf now rest
         else
           (case opt_get (opt_get s (js ''request'')) (js ''message'') of
              JStr m \<Rightarrow>
                if js_trim m \<noteq> [] then
                  (let startIso = string_or_empty (opt_get s (js ''start''));
                       ms = (if startIso \<noteq> [] then Date_parse pf startIso else None)
                   in (js_trim m, (case ms of Some t \<Rightarrow> t | None \<Rightarrow> now)) # open_steps pf now rest)
                else open_steps pf now rest
            | _ \<Rightarrow> open_steps pf now rest))"

definition extractOpenMessagesFromSteps :: "platform \<Rightarrow> rat \<Rightarrow> jsval \<Rightarrow> (jsstring \<times> rat) list" where
  "extractOpenMessagesFromSteps pf now rawResponse =
     (case opt_get rawResponse (js ''steps'') of
        JArr steps \<Rightarrow> sort_key snd (open_steps pf now steps)
      | _ \<Rightarrow> [])"

text \<open>
  The state of the \<open>Chat\<close> component that \<open>onSend\<close> reads or writes: its React state,
  its two refs, the address of the page, and the number of identifiers drawn so far.
  \<open>uuid()\<close> is a parameter: the \<open>k\<close>-th identifier drawn is \<open>uuid k\<close>. The model is of
  the handler \<open>onSend\<close>; the effects of the component that React runs after a change of
  state (the synchronization with the URL, the push channel) are not part of it.
\<close>

record chat_state =
  messages :: "ChatMessage list"
  draft :: jsstring
  loading :: bool
  error :: "jsstring option"
  selectedId :: "jsstring option"
  inspected :: "(jsstring \<times> jsval) option"
  inspectError :: "jsstring option"
  loadedThreadId :: "jsstring option"
  suppressNextUrlSync :: bool
  lastOpenMsg :: "(jsstring \<times> jsstring \<times> rat) option"
  href :: jsstring
  uuid_count :: nat

text \<open>The readings of \<open>Date.now()\<close> during one send, in the order of the source.\<close>

record send_times =
  t_sentAt :: rat
  t_receivedAt :: rat
  t_steps :: rat
  t_dedup :: rat
  t_banner :: rat

text \<open>What \<open>onSend\<close> keeps in local constants across the \<open>await\<close>.\<close>

record pending =
  p_text :: jsstring
  p_userMsg :: ChatMessage
  p_prevThreadId :: "jsstring option"
  p_sentAt :: rat

text \<open>\<open>onSend\<close> up to the \<open>await\<close>: \<open>None\<close> when it returns at once.\<close>

definition onSend_begin ::
  "platform \<Rightarrow> (nat \<Rightarrow> jsstring) \<Rightarrow> rat \<Rightarrow> chat_state \<Rightarrow> (pending \<times> chat_state) option" where
  "onSend_begin pf uuid sentAt st =
     (let text = js_trim (draft st)
      in if text = [] \<or> loading st then None
         else
           let userMsg = \<lparr>msg_id = uuid (uuid_count st), msg_role = User, msg_text = text,
                          msg_createdAt = sentAt, msg_answerItems = None, msg_trace = None\<rparr>
           in Some (\<lparr>p_text = text, p_userMsg = userMsg,
                      p_prevThreadId = getThreadIdFromLocation pf (href st), p_sentAt = sentAt\<rparr>,
                    st\<lparr>draft := [], error := None, messages := messages st @ [userMsg],
                       selectedId := Some (msg_id userMsg), loading := True,
                       uuid_count := Suc (uuid_count st)\<rparr>))"

text \<open>
  The loop over \<open>openEvents\<close>: an event equal to the last one shown (same thread, same
  text, within ten seconds) is skipped. The result is \<open>openMsgs\<close>, the new value of
  \<open>lastOpenMsgRef\<close> and the new count of identifiers.
\<close>

fun open_messages ::
  "(nat \<Rightarrow> jsstring) \<Rightarrow> jsstring \<Rightarrow> rat \<Rightarrow> (jsstring \<times> rat) list
     \<Rightarrow> (jsstring \<times> jsstring \<times> rat) option \<Rightarrow> nat
     \<Rightarrow> ChatMessage list \<times> (jsstring \<times> jsstring \<times> rat) option \<times> nat" where
  "open_messages uuid tid now [] lastv k = ([], lastv, k)"
| "open_messages uuid tid now ((t, ts) # evs) lastv k =
     (if (case lastv of
            Some (ltid, ltext, lts) \<Rightarrow>
              ltid = tid \<and> ltext = t \<and> (now - lts < 10000 \<or> \<bar>ts - lts\<bar> < 10000)
          | None \<Rightarrow> False)
      then open_messages uuid tid now evs lastv k
      else
        (case open_messages uuid tid now evs (Some (tid, t, ts)) (Suc k) of
           (ms, last', k') \<Rightarrow>
             (\<lparr>msg_id = uuid k, msg_role = Assistant, msg_text = t, msg_createdAt = ts,
               msg_answerItems = None, msg_trace = None\<rparr> # ms, last', k')))"

text \<open>\<open>String(v || '').trim().toLowerCase()\<close>; \<open>None\<close> when \<open>String\<close> throws.\<close>

definition command_word :: "platform \<Rightarrow> jsval \<Rightarrow> jsstring option" where
  "command_word pf v =
     map_option (\<lambda>s. toLowerCase pf (js_trim s)) (if truthy v then js_String pf v else Some [])"

text \<open>The test of the special commands; an exception inside its \<open>try\<close> skips it.\<close>

definition is_close_command :: "platform \<Rightarrow> jsval \<Rightarrow> bool" where
  "is_close_command pf rawv =
     (case command_word pf (opt_get (opt_get rawv (js ''data'')) (js ''command'')) of
        None \<Rightarrow> False
      | Some cmd \<Rightarrow>
          (case command_word pf (opt_get (opt_get rawv (js ''data'')) (js ''action'')) of
             None \<Rightarrow> False
           | Some action \<Rightarrow>
               cmd = js ''#close'' \<or> cmd = js ''#delete-user'' \<or>
               action = js ''close_threads'' \<or> action = js ''delete_user''))"

definition system_message :: "jsstring \<Rightarrow> jsstring \<Rightarrow> rat \<Rightarrow> ChatMessage" where
  "system_message i txt createdAt =
     \<lparr>msg_id = i, msg_role = System, msg_text = txt, msg_createdAt = createdAt,
      msg_answerItems = None, msg_trace = None\<rparr>"

text \<open>
  \<open>suppressNextUrlSyncRef.current = true; setThreadIdInLocation(t)\<close>: when the event is
  dispatched, the listener \<open>syncFromUrl\<close> runs at once, finds the flag set, clears it and
  returns; otherwise the flag stays set.
\<close>

definition move_to_thread :: "platform \<Rightarrow> jsstring option \<Rightarrow> chat_state \<Rightarrow> chat_state" where
  "move_to_thread pf t st =
     (case setThreadIdInLocation pf t (href st) of
        (h, dispatched) \<Rightarrow>
          st\<lparr>href := h, suppressNextUrlSync := \<not> dispatched, loadedThreadId := t\<rparr>)"

text \<open>The \<open>try\<close> block of \<open>onSend\<close> after \<open>sendMessage\<close> has returned \<open>res\<close>.\<close>

definition onSend_success ::
  "platform \<Rightarrow> (nat \<Rightarrow> jsstring) \<Rightarrow> send_times \<Rightarrow> pending \<Rightarrow> send_result \<Rightarrow> chat_state \<Rightarrow> chat_state" where
  "onSend_success pf uuid tm pend res st =
     (let rendered = itemsToRenderableText pf (answerItems res);
          body = js_trim (if rendered \<noteq> [] then rendered else answerText res);
          assistantText = (if body \<noteq> [] then body else js ''[sem resposta]'');
          assistantMsg =
            \<lparr>msg_id = uuid (uuid_count st), msg_role = Assistant, msg_text = assistantText,
             msg_createdAt = t_receivedAt tm, msg_answerItems = Some (answerItems res),
             msg_trace = Some
               \<lparr>trace_url = request_url res, trace_method = js ''POST'',
                trace_payload = request_payload res, trace_status = status res,
                trace_ok = ok res, trace_json = raw res, trace_rawText = rawText res,
                trace_timingMs = (if timingMs res > 0 then timingMs res
                                  else t_receivedAt tm - p_sentAt pend)\<rparr>\<rparr>;
          ctx = extractConversationContextFromResponseJson pf (raw res);
          ctxThread = (case ctx of None \<Rightarrow> None | Some c \<Rightarrow> ctx_threadId c);
          tidForDedup = js_trim (str_or_empty (str_or (str_or ctxThread (p_prevThreadId pend)) (Some [])))
      in case open_messages uuid tidForDedup (t_dedup tm)
                (extractOpenMessagesFromSteps pf (t_steps tm) (raw res))
                (lastOpenMsg st) (Suc (uuid_count st)) of
           (openMsgs, lastv, k) \<Rightarrow>
             (let st1 = st\<lparr>lastOpenMsg := lastv\<rparr>;
                  finish = (\<lambda>s. s\<lparr>selectedId := Some (msg_id assistantMsg), inspected := None,
                                 inspectError := None\<rparr>)
              in if is_close_command pf (raw res) then
                   finish ((move_to_thread pf None st1)
                     \<lparr>messages :=
                        [system_message (uuid k)
                           (js ''Conversa encerrada. Voc'' @ [0xEA] @
                            js '' j'' @ [0xE1] @ js '' pode iniciar uma nova conversa.'')
                           (t_banner tm),
                         p_userMsg pend] @ openMsgs @ [assistantMsg],
                      uuid_count := Suc k\<rparr>)
                 else
                   (case non_empty (js_trim (str_or_empty ctxThread)) of
                      None \<Rightarrow>
                        finish (st1\<lparr>messages := messages st1 @ openMsgs @ [assistantMsg],
                                  uuid_count := k\<rparr>)
                    | Some nextThreadId \<Rightarrow>
                        if str_truthy (p_prevThreadId pend) \<and> p_prevThreadId pend \<noteq> Some nextThreadId
                        then
                          finish ((move_to_thread pf (Some nextThreadId) st1)
                            \<lparr>messages :=
                               [system_message (uuid k) (js ''Thread: '' @ nextThreadId) (t_banner tm),
                                p_userMsg pend] @ openMsgs @ [assistantMsg],
                             uuid_count := Suc k\<rparr>)
                        else
                          (let st2 = move_to_thread pf (Some nextThreadId) st1
                           in finish (st2\<lparr>messages := messages st2 @ openMsgs @ [assistantMsg],
                                        uuid_count := k\<rparr>)))))"

text \<open>The \<open>message\<close> of what was thrown.\<close>

definition error_message :: "platform \<Rightarrow> js_error \<Rightarrow> jsstring" where
  "error_message pf e = (case e of Native n \<Rightarrow> engine_message pf n | SendFailure f \<Rightarrow> f_message f)"

text \<open>The \<open>catch\<close> block of \<open>onSend\<close>.\<close>

definition onSend_failure ::
  "platform \<Rightarrow> (nat \<Rightarrow> jsstring) \<Rightarrow> send_times \<Rightarrow> ChatSettings \<Rightarrow> pending \<Rightarrow> js_error
     \<Rightarrow> chat_state \<Rightarrow> chat_state" where
  "onSend_failure pf uuid tm settings pend e st =
     (let msg = error_message pf e;
          assistantMsg =
            \<lparr>msg_id = uuid (uuid_count st), msg_role = Assistant,
             msg_text = js ''Erro ao chamar o backend: '' @ msg,
             msg_createdAt = t_receivedAt tm, msg_answerItems = None,
             msg_trace = Some
               \<lparr>trace_url =
                  (case e of
                     SendFailure f \<Rightarrow> if f_url f \<noteq> [] then f_url f else js ''(desconhecido)''
                   | Native n \<Rightarrow> js ''(desconhecido)''),
                trace_method = js ''POST'',
                trace_payload =
                  (case e of
                     SendFailure f \<Rightarrow> f_payload f
                   | Native n \<Rightarrow>
                       [(js ''message'', JStr (p_text pend)),
                        (js ''customer_phone'', JStr (customerPhone settings))]),
                trace_status = (case e of SendFailure f \<Rightarrow> f_status f | Native n \<Rightarrow> 0),
                trace_ok = False,
                trace_json =
                  (case e of
                     SendFailure f \<Rightarrow> if f_response f = JUndefined then JNull else f_response f
                   | Native n \<Rightarrow> JNull),
                trace_rawText = (case e of SendFailure f \<Rightarrow> f_rawText f | Native n \<Rightarrow> None),
                trace_timingMs = t_receivedAt tm - p_sentAt pend\<rparr>\<rparr>
      in st\<lparr>error := Some msg, messages := messages st @ [assistantMsg],
            selectedId := Some (msg_id assistantMsg), inspected := None,
            uuid_count := Suc (uuid_count st)\<rparr>)"

text \<open>\<open>onSend\<close> after the \<open>await\<close>: the \<open>try\<close> or the \<open>catch\<close>, then the \<open>finally\<close>.\<close>

definition onSend_finish ::
  "platform \<Rightarrow> (nat \<Rightarrow> jsstring) \<Rightarrow> send_times \<Rightarrow> ChatSettings \<Rightarrow> pending
     \<Rightarrow> js_error + send_result \<Rightarrow> chat_state \<Rightarrow> chat_state" where
  "onSend_finish pf uuid tm settings pend outcome st =
     (case outcome of
        Inr res \<Rightarrow> (onSend_success pf uuid tm pend res st)\<lparr>loading := False\<rparr>
      | Inl e \<Rightarrow> (onSend_failure pf uuid tm settings pend e st)\<lparr>loading := False\<rparr>)"

text \<open>One whole send, with nothing else happening during the \<open>await\<close>.\<close>

definition onSend ::
  "platform \<Rightarrow> (http_request \<Rightarrow> fetch_outcome) \<Rightarrow> (nat \<Rightarrow> jsstring) \<Rightarrow> send_times \<Rightarrow> rat \<Rightarrow> rat
     \<Rightarrow> ChatSettings \<Rightarrow> chat_state \<Rightarrow> chat_state" where
  "onSend pf fetch uuid tm t0 t1 settings st =
     (case onSend_begin pf uuid (t_sentAt tm) st of
        None \<Rightarrow> st
      | Some (pend, st') \<Rightarrow>
          onSend_finish pf uuid tm settings pend
            (sendMessage pf fetch t0 t1 settings (p_text pend)) st')"

section \<open>The built-in functions on the inputs of the examples\<close>

text \<open>
  The theorems below hold for every behaviour of the built-in functions. Their examples
  need the functions at a few concrete inputs: \<open>example_platform\<close> lists the results
  that the ECMAScript and URL standards give there. Outside the listed inputs its
  functions throw or return the empty string; no example reads them there.
\<close>

definition example_json :: "(jsstring \<times> jsval) list" where
  "example_json =
     [(js ''null'', JNull),
      (js ''{\"message\":\"oi\",\"customer_phone\":\"5511999999999\"}'',
       JObj [(js ''message'', JStr (js ''oi'')), (js ''customer_phone'', JStr (js ''5511999999999''))]),
      (js ''{\"companyId\":\"acme\",\"customerPhone\":\"5511999999999\",\"customerName\":\"Victor\",\"apiBaseUrl\":\"\"}'',
       JObj [(js ''companyId'', JStr (js ''acme'')), (js ''customerPhone'', JStr (js ''5511999999999'')),
             (js ''customerName'', JStr (js ''Victor'')), (js ''apiBaseUrl'', JStr [])]),
      (js ''{\"message\":\"oi\",\"customer_phone\":\"5511999999999\",\"customer_name\":\"Victor\"}'',
       JObj [(js ''message'', JStr (js ''oi'')), (js ''customer_phone'', JStr (js ''5511999999999'')),
             (js ''customer_name'', JStr (js ''Victor''))]),
      (js ''[{\"type\":\"text\",\"message\":\"oi\"}]'',
       JArr [JObj [(js ''type'', JStr (js ''text'')), (js ''message'', JStr (js ''oi''))]]),
      (js ''{\"success\":true,\"provider\":\"simple\",\"data\":{\"thread_id\":\"T2\",\"customer_id\":\"c1\",\"assistant_response\":{\"answer\":\"oi\"}}}'',
       JObj [(js ''success'', JBool True), (js ''provider'', JStr (js ''simple'')),
             (js ''data'', JObj [(js ''thread_id'', JStr (js ''T2'')), (js ''customer_id'', JStr (js ''c1'')),
                (js ''assistant_response'', JObj [(js ''answer'', JStr (js ''oi''))])])]),
      (js ''{\"success\":true,\"provider\":\"simple\",\"data\":{\"thread_id\":\"T2\",\"assistant_response\":{\"answer\":\"oi\"}}}'',
       JObj [(js ''success'', JBool True), (js ''provider'', JStr (js ''simple'')),
             (js ''data'', JObj [(js ''thread_id'', JStr (js ''T2'')),
                (js ''assistant_response'', JObj [(js ''answer'', JStr (js ''oi''))])])]),
      (js ''{\"success\":false,\"provider\":\"simple\",\"error\":\"boom\"}'',
       JObj [(js ''success'', JBool False), (js ''provider'', JStr (js ''simple'')),
             (js ''error'', JStr (js ''boom''))])]"

definition example_urls :: "((jsstring \<times> jsstring option) \<times> url) list" where
  "example_urls =
     [((js ''https://app.example/chat?thread_id=T1'', None),
       \<lparr>u_base = js ''https://app.example/chat'', u_params = [(js ''thread_id'', js ''T1'')], u_hash = []\<rparr>),
      ((js ''https://x'', Some (js ''https://app.example'')),
       \<lparr>u_base = js ''https://x/'', u_params = [], u_hash = []\<rparr>),
      ((js ''https://x?redirect_url=z'', Some (js ''https://app.example'')),
       \<lparr>u_base = js ''https://x/'', u_params = [(js ''redirect_url'', js ''z'')], u_hash = []\<rparr>)]"

definition example_hrefs :: "((jsstring \<times> (jsstring \<times> jsstring) list \<times> jsstring) \<times> jsstring) list" where
  "example_hrefs =
     [((js ''https://app.example/chat'', [(js ''thread_id'', js ''T1'')], []),
       js ''https://app.example/chat?thread_id=T1''),
      ((js ''https://app.example/chat'', [(js ''thread_id'', js ''T2'')], []),
       js ''https://app.example/chat?thread_id=T2''),
      ((js ''https://x/'', [(js ''redirect_url'', js ''https://app.example/chat?thread_id=T1'')], []),
       js ''https://x/?redirect_url=https%3A%2F%2Fapp.example%2Fchat%3Fthread_id%3DT1''),
      ((js ''https://x/'', [(js ''redirect_url'', js ''z'')], []),
       js ''https://x/?redirect_url=z'')]"

text \<open>
  \<open>localeCompare\<close> on the keys of the examples: \<open>example_collation\<close> lists them in the order
  in which the collation of the browsers (ECMA-402, the root collation of CLDR) puts them:
  punctuation before digits before letters, and a lower-case letter before the same
  letter in upper case. The result is the sign of the difference of the two positions.
\<close>

definition example_collation :: "jsstring list" where
  "example_collation = [js ''_'', js ''2'', js ''a'', js ''b'', js ''B'', js ''c'']"

definition collation_rank :: "jsstring \<Rightarrow> nat" where
  "collation_rank s = length (takeWhile (\<lambda>k. k \<noteq> s) example_collation)"

definition collation_compare :: "jsstring \<Rightarrow> jsstring \<Rightarrow> int" where
  "collation_compare a b =
     (if collation_rank a < collation_rank b then - 1
      else if collation_rank b < collation_rank a then 1 else 0)"

definition example_platform :: platform where
  "example_platform =
     \<lparr>JSON_parse = map_of example_json,
      JSON_stringify = (\<lambda>v. case find (\<lambda>p. snd p = v) example_json of Some p \<Rightarrow> fst p | None \<Rightarrow> []),
      JSON_stringify2 = (\<lambda>v. []),
      encodeURIComponent = (\<lambda>s. if s = js ''acme'' then Some (js ''acme'') else None),
      URL_new = (\<lambda>h b. map_of example_urls (h, b)),
      URL_href = (\<lambda>u. case map_of example_hrefs (u_base u, u_params u, u_hash u) of
                          Some h \<Rightarrow> h | None \<Rightarrow> []),
      localeCompare = collation_compare,
      ToString = (\<lambda>v. None),
      Date_parse = (\<lambda>s. None),
      toLowerCase = map (\<lambda>c. if 0x41 \<le> c \<and> c \<le> 0x5A then c + 0x20 else c),
      engine_message = (\<lambda>n. case n of
          NullRead \<Rightarrow> js ''Cannot read properties of null''
        | NotPrimitive \<Rightarrow> js ''Cannot convert object to primitive value''
        | URIMalformed \<Rightarrow> js ''URI malformed''
        | FetchFailed \<Rightarrow> js ''Failed to fetch'')\<rparr>"

text \<open>A conversation for the examples: one earlier message, the draft \<open>oi\<close>, thread \<open>T1\<close>.\<close>

definition example_settings :: ChatSettings where
  "example_settings =
     \<lparr>companyId = js ''acme'', customerPhone = js ''5511999999999'', customerName = None,
      apiBaseUrl = None\<rparr>"

definition example_uuid :: "nat \<Rightarrow> jsstring" where
  "example_uuid k = js ''m'' @ show_nat k"

definition example_times :: send_times where
  "example_times =
     \<lparr>t_sentAt = 1000, t_receivedAt = 1250, t_steps = 1250, t_dedup = 1250, t_banner = 1250\<rparr>"

definition example_chat :: chat_state where
  "example_chat =
     \<lparr>messages = [system_message (js ''m0'') (js ''Conversa iniciada.'') 0],
      draft = js ''oi'', loading = False, error = None, selectedId = None, inspected = None,
      inspectError = None, loadedThreadId = Some (js ''T1''), suppressNextUrlSync = False,
      lastOpenMsg = None, href = js ''https://app.example/chat?thread_id=T1'', uuid_count = 1\<rparr>"

section \<open>Properties\<close>

subsection \<open>Strings\<close>

lemma unat_code_unit_of_char:
  "unat (of_nat (of_char c) :: code_unit) = of_char c"
proof -
  have "(of_char c :: nat) < 256"
    by (cases c) (simp add: of_char_def)
  then have "(of_char c :: nat) < 65536"
    by linarith
  then show ?thesis
    by (simp add: unat_of_nat)
qed

lemma js_eq_iff: "js a = js b \<longleftrightarrow> a = b"
proof
  assume h: "js a = js b"
  have "map (\<lambda>c. unat (of_nat (of_char c) :: code_unit)) a
      = map (\<lambda>c. unat (of_nat (of_char c) :: code_unit)) b"
    using arg_cong [OF h, of "map unat"] by (simp add: js_def comp_def)
  then have "map (of_char :: char \<Rightarrow> nat) a = map of_char b"
    by (simp add: unat_code_unit_of_char)
  then show "a = b"
    by (simp add: inj_map_eq_map [OF inj_of_char])
qed simp

lemma js_Nil_iff: "js s = [] \<longleftrightarrow> s = []" "[] = js s \<longleftrightarrow> s = []"
  by (auto simp: js_def)

lemma js_append: "js a @ js b = js (a @ b)"
  by (simp add: js_def)

lemma filter_truthy_text_items:
  "filter truthy (map (toAnswerItem \<circ> JStr) ss) = map text_item ss"
  by (induction ss) (simp_all add: toAnswerItem_def text_item_def)

lemma js_trim_no_ws:
  assumes "js_trim s \<noteq> []"
  shows "\<not> is_ws (hd (js_trim s)) \<and> \<not> is_ws (last (js_trim s))"
proof -
  let ?d = "dropWhile is_ws s"
  let ?r = "dropWhile is_ws (rev ?d)"
  have t: "js_trim s = rev ?r" by (simp only: js_trim_def)
  have r: "?r \<noteq> []" using assms unfolding t rev_is_Nil_conv .
  have "\<not> is_ws (hd ?r)" using r by (rule hd_dropWhile)
  then have l: "\<not> is_ws (last (rev ?r))" by (metis last_rev)
  have d: "?d \<noteq> []"
  proof
    assume "?d = []"
    then have "?r = []" by (simp only: rev.simps dropWhile.simps)
    with r show False by contradiction
  qed
  have hd: "\<not> is_ws (hd ?d)" using d by (rule hd_dropWhile)
  have "rev ?d = takeWhile is_ws (rev ?d) @ ?r" by (simp only: takeWhile_dropWhile_id)
  then have "?d = rev ?r @ rev (takeWhile is_ws (rev ?d))"
    by (metis rev_append rev_rev_ident)
  then have "hd ?d = hd (rev ?r)" using r by (metis hd_append2 rev_is_Nil_conv)
  then show ?thesis using hd l unfolding t by (simp only: simp_thms)
qed

lemma js_trim_idem: "js_trim (js_trim s) = js_trim s"
proof (cases "js_trim s = []")
  case True
  have "js_trim [] = []" by (simp add: js_trim_def)
  with True show ?thesis by simp
next
  case False
  from js_trim_no_ws [OF False]
  have h: "\<not> is_ws (hd (js_trim s))" and l: "\<not> is_ws (last (js_trim s))" by auto
  have 1: "dropWhile is_ws (js_trim s) = js_trim s"
    using False h by (cases "js_trim s") auto
  have "rev (js_trim s) \<noteq> []" using False by simp
  moreover have "\<not> is_ws (hd (rev (js_trim s)))" using l False by (simp add: hd_rev)
  ultimately have 2: "dropWhile is_ws (rev (js_trim s)) = rev (js_trim s)"
    by (cases "rev (js_trim s)") auto
  show ?thesis unfolding js_trim_def [of "js_trim s"] 1 2 by simp
qed

subsection \<open>Answer segments\<close>

text \<open>
  C1. For every reply whose \<open>data.disparo.answer\<close> is a non-empty array of strings,
  \<open>extractDisparoItems\<close> returns one segment per string, in the order of the array: the
  segment of a string \<open>s\<close> is the object with the type \<open>text\<close> and the message \<open>s\<close>.
\<close>

theorem extractDisparoItems_string_array:
  assumes "get_member data (js ''data'') = Some d"
    and "opt_get (opt_get d (js ''disparo'')) (js ''answer'') = JArr (map JStr ss)"
    and "ss \<noteq> []"
  shows "extractDisparoItems data
           = Some (map (\<lambda>s. JObj [(js ''type'', JStr (js ''text'')), (js ''message'', JStr s)]) ss)
       \<and> (\<exists>items. extractDisparoItems data = Some items \<and> length items = length ss
             \<and> (\<forall>i<length ss. js_get (items ! i) (js ''type'') = JStr (js ''text'')
                                \<and> js_get (items ! i) (js ''message'') = JStr (ss ! i)))"
proof -
  have e: "extractDisparoItems data = Some (map text_item ss)"
    using assms
    by (simp add: extractDisparoItems_def toAnswerItems_def filter_truthy_text_items Let_def)
  have m: "map text_item ss
      = map (\<lambda>s. JObj [(js ''type'', JStr (js ''text'')), (js ''message'', JStr s)]) ss"
    by (simp add: text_item_def)
  have f: "\<forall>i<length ss. js_get (map text_item ss ! i) (js ''type'') = JStr (js ''text'')
                         \<and> js_get (map text_item ss ! i) (js ''message'') = JStr (ss ! i)"
    by (simp add: text_item_def js_eq_iff)
  from e m f show ?thesis by simp
qed

theorem extractDisparoItems_string_array_witness:
  "extractDisparoItems
     (JObj [(js ''data'', JObj [(js ''disparo'',
        JObj [(js ''answer'', JArr [JStr (js ''oi''), JStr (js ''tudo bem?'')])])])])
   = Some [JObj [(js ''type'', JStr (js ''text'')), (js ''message'', JStr (js ''oi''))],
           JObj [(js ''type'', JStr (js ''text'')), (js ''message'', JStr (js ''tudo bem?''))]]"
  using extractDisparoItems_string_array
    [of "JObj [(js ''data'', JObj [(js ''disparo'',
        JObj [(js ''answer'', JArr [JStr (js ''oi''), JStr (js ''tudo bem?'')])])])]"
        "JObj [(js ''disparo'',
        JObj [(js ''answer'', JArr [JStr (js ''oi''), JStr (js ''tudo bem?'')])])]"
        "[js ''oi'', js ''tudo bem?'']"]
  by (simp add: get_member_def opt_get_def)

text \<open>
  C2, as the claim states it, fails: for a reply with no \<open>data.disparo.answer\<close> whose
  \<open>data.assistant_response.answer\<close> is the string of two spaces, or the empty string,
  \<open>extractDisparoItems\<close> returns no segment at all (\<open>toAnswerItems\<close> tests \<open>raw.trim()\<close>).
\<close>

theorem extractDisparoItems_blank_answer_counterexample:
  "get_member (JObj [(js ''data'', JObj [(js ''assistant_response'',
        JObj [(js ''answer'', JStr (js ''  ''))])])]) (js ''data'')
     = Some (JObj [(js ''assistant_response'', JObj [(js ''answer'', JStr (js ''  ''))])])
   \<and> opt_get (opt_get (JObj [(js ''assistant_response'', JObj [(js ''answer'', JStr (js ''  ''))])])
        (js ''disparo'')) (js ''answer'') = JUndefined
   \<and> opt_get (opt_get (JObj [(js ''assistant_response'', JObj [(js ''answer'', JStr (js ''  ''))])])
        (js ''assistant_response'')) (js ''answer'') = JStr (js ''  '')
   \<and> extractDisparoItems (JObj [(js ''data'', JObj [(js ''assistant_response'',
        JObj [(js ''answer'', JStr (js ''  ''))])])]) = Some []
   \<and> extractDisparoItems (JObj [(js ''data'', JObj [(js ''assistant_response'',
        JObj [(js ''answer'', JStr (js ''  ''))])])])
       \<noteq> Some [JObj [(js ''type'', JStr (js ''text'')), (js ''message'', JStr (js ''  ''))]]
   \<and> extractDisparoItems (JObj [(js ''data'', JObj [(js ''assistant_response'',
        JObj [(js ''answer'', JStr [])])])]) = Some []"
  by (simp add: extractDisparoItems_def get_member_def opt_get_def toAnswerItems_def
      js_eq_iff js_trim_def is_ws_def js_def)

text \<open>
  C2, amended. For every reply with no \<open>data.disparo.answer\<close> whose
  \<open>data.assistant_response.answer\<close> is a string \<open>s\<close>: when \<open>s\<close> is not blank (something is
  left of it after \<open>trim\<close>), \<open>extractDisparoItems\<close> returns exactly one segment, the object
  with the type \<open>text\<close> and the message \<open>s\<close> itself, untrimmed; when \<open>s\<close> is empty or
  white space only, it returns no segment.
\<close>

theorem extractDisparoItems_assistant_answer:
  assumes "get_member data (js ''data'') = Some d"
    and "opt_get (opt_get d (js ''disparo'')) (js ''answer'') = JUndefined"
    and "opt_get (opt_get d (js ''assistant_response'')) (js ''answer'') = JStr s"
  shows "(js_trim s \<noteq> [] \<longrightarrow>
            extractDisparoItems data
              = Some [JObj [(js ''type'', JStr (js ''text'')), (js ''message'', JStr s)]])
       \<and> (js_trim s = [] \<longrightarrow> extractDisparoItems data = Some [])"
  using assms by (simp add: extractDisparoItems_def toAnswerItems_def text_item_def)

theorem extractDisparoItems_assistant_answer_witness:
  "extractDisparoItems (JObj [(js ''data'', JObj [(js ''assistant_response'',
        JObj [(js ''answer'', JStr (js '' oi''))])])])
     = Some [JObj [(js ''type'', JStr (js ''text'')), (js ''message'', JStr (js '' oi''))]]
   \<and> extractDisparoItems (JObj [(js ''data'', JObj [(js ''assistant_response'',
        JObj [(js ''answer'', JStr [0x20, 0x9, 0xA0])])])]) = Some []"
proof -
  have t1: "js_trim (js '' oi'') \<noteq> []"
    by (simp add: js_trim_def is_ws_def js_def)
  have t2: "js_trim [0x20, 0x9, 0xA0] = []"
    by (simp add: js_trim_def is_ws_def)
  from extractDisparoItems_assistant_answer
    [of "JObj [(js ''data'', JObj [(js ''assistant_response'',
        JObj [(js ''answer'', JStr (js '' oi''))])])]"
        "JObj [(js ''assistant_response'', JObj [(js ''answer'', JStr (js '' oi''))])]"
        "js '' oi''"] t1
  have 1: "extractDisparoItems (JObj [(js ''data'', JObj [(js ''assistant_response'',
        JObj [(js ''answer'', JStr (js '' oi''))])])])
     = Some [JObj [(js ''type'', JStr (js ''text'')), (js ''message'', JStr (js '' oi''))]]"
    by (simp add: get_member_def opt_get_def js_eq_iff)
  from extractDisparoItems_assistant_answer
    [of "JObj [(js ''data'', JObj [(js ''assistant_response'',
        JObj [(js ''answer'', JStr [0x20, 0x9, 0xA0])])])]"
        "JObj [(js ''assistant_response'', JObj [(js ''answer'', JStr [0x20, 0x9, 0xA0])])]"
        "[0x20, 0x9, 0xA0]"] t2
  have 2: "extractDisparoItems (JObj [(js ''data'', JObj [(js ''assistant_response'',
        JObj [(js ''answer'', JStr [0x20, 0x9, 0xA0])])])]) = Some []"
    by (simp add: get_member_def opt_get_def js_eq_iff)
  from 1 2 show ?thesis by simp
qed

subsection \<open>Saved settings\<close>

text \<open>
  C6. Saving a settings object and loading it again returns the same object, and after
  \<open>clearSettings\<close> the next \<open>loadSettings\<close> returns \<open>null\<close>. \<open>localStorage\<close> is a map from
  keys to strings; \<open>JSON.stringify\<close> and \<open>JSON.parse\<close> are the browser's, of which the
  theorem needs that the text written for this object is not empty and parses back to
  the object.
\<close>

theorem settings_round_trip:
  assumes "JSON_parse pf (JSON_stringify pf (settings_object s)) = Some (settings_object s)"
    and "JSON_stringify pf (settings_object s) \<noteq> []"
  shows "loadSettings pf (saveSettings pf (settings_object s) store) = settings_object s
       \<and> loadSettings pf (clearSettings (saveSettings pf (settings_object s) store)) = JNull
       \<and> loadSettings pf (clearSettings store) = JNull"
  using assms by (simp add: loadSettings_def saveSettings_def clearSettings_def)

lemma example_settings_object:
  "settings_object \<lparr>companyId = js ''acme'', customerPhone = js ''5511999999999'',
        customerName = Some (js ''Victor''), apiBaseUrl = Some []\<rparr>
   = JObj [(js ''companyId'', JStr (js ''acme'')), (js ''customerPhone'', JStr (js ''5511999999999'')),
             (js ''customerName'', JStr (js ''Victor'')), (js ''apiBaseUrl'', JStr [])]"
  by (simp add: settings_object_def)

theorem settings_round_trip_witness:
  "loadSettings example_platform
     (saveSettings example_platform
        (settings_object \<lparr>companyId = js ''acme'', customerPhone = js ''5511999999999'',
           customerName = Some (js ''Victor''), apiBaseUrl = Some []\<rparr>) Map.empty)
   = JObj [(js ''companyId'', JStr (js ''acme'')), (js ''customerPhone'', JStr (js ''5511999999999'')),
           (js ''customerName'', JStr (js ''Victor'')), (js ''apiBaseUrl'', JStr [])]
   \<and> loadSettings example_platform (clearSettings Map.empty) = JNull"
  using settings_round_trip [of example_platform
      "\<lparr>companyId = js ''acme'', customerPhone = js ''5511999999999'',
           customerName = Some (js ''Victor''), apiBaseUrl = Some []\<rparr>" Map.empty]
  by (simp add: example_settings_object example_platform_def example_json_def js_eq_iff js_Nil_iff loadSettings_def saveSettings_def clearSettings_def KEY_def)

subsection \<open>The onboarding form\<close>

text \<open>
  C10. The start button acts only while it is enabled (\<open>canStart\<close> holds and no start is
  running), and the settings it then hands to \<open>onStart\<close> have: a company id that is not
  empty and neither starts nor ends with white space; a customer phone made of the
  digits 0 to 9 only, at least 8 of them; and a customer name that is absent, or not
  empty and without white space at either end.
\<close>

theorem start_click_settings:
  assumes "start_click f = Some s"
  shows "canStart f \<and> \<not> form_starting f
       \<and> companyId s \<noteq> [] \<and> \<not> is_ws (hd (companyId s)) \<and> \<not> is_ws (last (companyId s))
       \<and> (\<forall>c \<in> set (customerPhone s). is_digit c) \<and> 8 \<le> length (customerPhone s)
       \<and> (customerName s = None
            \<or> (\<exists>n. customerName s = Some n \<and> n \<noteq> [] \<and> \<not> is_ws (hd n) \<and> \<not> is_ws (last n)))"
proof -
  from assms have c: "canStart f" and ns: "\<not> form_starting f"
    by (auto simp: start_click_def split: if_splits)
  from assms c ns have s: "s = \<lparr>companyId = js_trim (form_companyId f),
                 customerPhone = normalizeDigits (form_customerPhone f),
                 customerName = (if js_trim (form_customerName f) \<noteq> []
                                 then Some (js_trim (form_customerName f)) else None),
                 apiBaseUrl = Some (form_apiBaseUrl f)\<rparr>"
    by (simp add: start_click_def)
  from c have ne: "js_trim (form_companyId f) \<noteq> []" and len: "8 \<le> length (normalizeDigits (form_customerPhone f))"
    by (simp_all add: canStart_def)
  have cid: "companyId s = js_trim (form_companyId f)" by (simp add: s)
  have ph: "customerPhone s = normalizeDigits (form_customerPhone f)" by (simp add: s)
  have 1: "companyId s \<noteq> [] \<and> \<not> is_ws (hd (companyId s)) \<and> \<not> is_ws (last (companyId s))"
    unfolding cid using ne js_trim_no_ws [OF ne] by simp
  have 2: "(\<forall>c \<in> set (customerPhone s). is_digit c) \<and> 8 \<le> length (customerPhone s)"
    unfolding ph using len by (simp add: normalizeDigits_def)
  have 3: "customerName s = None
            \<or> (\<exists>n. customerName s = Some n \<and> n \<noteq> [] \<and> \<not> is_ws (hd n) \<and> \<not> is_ws (last n))"
  proof (cases "js_trim (form_customerName f) = []")
    case True then show ?thesis by (simp add: s)
  next
    case False
    with js_trim_no_ws [OF False] show ?thesis by (simp add: s)
  qed
  from c ns 1 2 3 show ?thesis by blast
qed

theorem start_click_settings_witness:
  "start_click \<lparr>form_apiEnv = Env_DEV, form_companyId = js '' acme '', form_customerPhone = js ''+55 (11) 99999-9999'',
       form_customerName = js ''  '', form_starting = False\<rparr>
   = Some \<lparr>companyId = js ''acme'', customerPhone = js ''5511999999999'', customerName = None, apiBaseUrl = Some []\<rparr>
   \<and> canStart \<lparr>form_apiEnv = Env_DEV, form_companyId = js '' acme '', form_customerPhone = js ''+55 (11) 99999-9999'',
       form_customerName = js ''  '', form_starting = False\<rparr>
   \<and> length (js ''5511999999999'') \<ge> 8"
proof -
  have e: "start_click \<lparr>form_apiEnv = Env_DEV, form_companyId = js '' acme '', form_customerPhone = js ''+55 (11) 99999-9999'',
       form_customerName = js ''  '', form_starting = False\<rparr>
   = Some \<lparr>companyId = js ''acme'', customerPhone = js ''5511999999999'', customerName = None, apiBaseUrl = Some []\<rparr>"
    by (simp add: start_click_def canStart_def js_trim_def is_ws_def normalizeDigits_def is_digit_def
        js_def form_apiBaseUrl_def)
  from start_click_settings [OF e] e show ?thesis by simp
qed

subsection \<open>The request of a send\<close>

lemma takeWhile_eq_replicate: "takeWhile (\<lambda>c. c = x) ys = replicate (length (takeWhile (\<lambda>c. c = x) ys)) x"
  by (induction ys) auto

lemma strip_trailing_slashes_spec:
  "(strip_trailing_slashes t = [] \<or> last (strip_trailing_slashes t) \<noteq> 0x2F)
   \<and> (\<exists>n. t = strip_trailing_slashes t @ replicate n 0x2F)"
proof -
  let ?P = "\<lambda>c::code_unit. c = 0x2F"
  let ?d = "dropWhile ?P (rev t)"
  have s: "strip_trailing_slashes t = rev ?d" by (simp only: strip_trailing_slashes_def)
  have a: "rev ?d = [] \<or> last (rev ?d) \<noteq> 0x2F"
  proof (cases "?d = []")
    case True then show ?thesis by (simp only: rev.simps simp_thms)
  next
    case False
    then have "\<not> ?P (hd ?d)" by (rule hd_dropWhile)
    then show ?thesis by (metis last_rev)
  qed
  have "rev t = takeWhile ?P (rev t) @ ?d" by (simp only: takeWhile_dropWhile_id)
  then have "t = rev ?d @ rev (takeWhile ?P (rev t))" by (metis rev_append rev_rev_ident)
  moreover have "rev (takeWhile ?P (rev t)) = replicate (length (takeWhile ?P (rev t))) 0x2F"
    using takeWhile_eq_replicate [of "0x2F" "rev t"] by (metis rev_replicate)
  ultimately have "t = rev ?d @ replicate (length (takeWhile ?P (rev t))) 0x2F" by simp
  then have b: "\<exists>n. t = rev ?d @ replicate n 0x2F" by blast
  from a b show ?thesis unfolding s by blast
qed

lemma normalizeBaseUrl_spec:
  "(normalizeBaseUrl b = [] \<or> last (normalizeBaseUrl b) \<noteq> 0x2F)
   \<and> (\<exists>n. js_trim (case b of Some x \<Rightarrow> x | None \<Rightarrow> []) = normalizeBaseUrl b @ replicate n 0x2F)"
proof (cases "js_trim (case b of Some x \<Rightarrow> x | None \<Rightarrow> []) = []")
  case True
  then show ?thesis by (simp add: normalizeBaseUrl_def)
next
  case False
  then have "normalizeBaseUrl b = strip_trailing_slashes (js_trim (case b of Some x \<Rightarrow> x | None \<Rightarrow> []))"
    by (simp add: normalizeBaseUrl_def)
  then show ?thesis using strip_trailing_slashes_spec by simp
qed

text \<open>
  C8. When \<open>encodeURIComponent\<close> accepts the company id, the request that \<open>sendMessage\<close>
  hands to \<open>fetch\<close>, and the only one, is a POST to the normalized base followed by
  \<open>/v1/messages/simple/\<close> and the encoded company id. The normalized base is the trimmed
  base URL without the slashes at its end. The body is the JSON text of the payload,
  which is exactly \<open>{ message, customer_phone }\<close> when the customer name is absent or
  blank, and exactly \<open>{ message, customer_phone, customer_name }\<close> with the trimmed name
  otherwise.
\<close>

theorem send_request_shape:
  assumes "encodeURIComponent pf (companyId settings) = Some c"
  shows "send_request pf settings message =
           Inr \<lparr>req_url = normalizeBaseUrl (apiBaseUrl settings) @ js ''/v1/messages/simple/'' @ c,
                req_method = js ''POST'',
                req_headers = [(js ''Content-Type'', js ''application/json'')],
                req_body = JSON_stringify pf (JObj (send_payload settings message))\<rparr>
       \<and> (normalizeBaseUrl (apiBaseUrl settings) = [] \<or> last (normalizeBaseUrl (apiBaseUrl settings)) \<noteq> 0x2F)
       \<and> (\<exists>n. js_trim (case apiBaseUrl settings of Some x \<Rightarrow> x | None \<Rightarrow> [])
                = normalizeBaseUrl (apiBaseUrl settings) @ replicate n 0x2F)
       \<and> ((customerName settings = None \<or> (\<exists>nm. customerName settings = Some nm \<and> js_trim nm = []))
            \<longrightarrow> send_payload settings message =
                  [(js ''message'', JStr message), (js ''customer_phone'', JStr (customerPhone settings))])
       \<and> (\<forall>nm. customerName settings = Some nm \<and> js_trim nm \<noteq> []
            \<longrightarrow> send_payload settings message =
                  [(js ''message'', JStr message), (js ''customer_phone'', JStr (customerPhone settings)),
                   (js ''customer_name'', JStr (js_trim nm))])
       \<and> (\<forall>fetch. sendMessage pf fetch started ended settings message =
             sendMessage pf (\<lambda>r. fetch \<lparr>req_url = normalizeBaseUrl (apiBaseUrl settings) @ js ''/v1/messages/simple/'' @ c,
                req_method = js ''POST'',
                req_headers = [(js ''Content-Type'', js ''application/json'')],
                req_body = JSON_stringify pf (JObj (send_payload settings message))\<rparr>) started ended settings message)"
proof -
  have r: "send_request pf settings message =
           Inr \<lparr>req_url = normalizeBaseUrl (apiBaseUrl settings) @ js ''/v1/messages/simple/'' @ c,
                req_method = js ''POST'',
                req_headers = [(js ''Content-Type'', js ''application/json'')],
                req_body = JSON_stringify pf (JObj (send_payload settings message))\<rparr>"
    using assms by (simp add: send_request_def buildMessagesUrl_def)
  have p1: "(customerName settings = None \<or> (\<exists>nm. customerName settings = Some nm \<and> js_trim nm = []))
            \<longrightarrow> send_payload settings message =
                  [(js ''message'', JStr message), (js ''customer_phone'', JStr (customerPhone settings))]"
    by (auto simp: send_payload_def)
  have p2: "\<forall>nm. customerName settings = Some nm \<and> js_trim nm \<noteq> []
            \<longrightarrow> send_payload settings message =
                  [(js ''message'', JStr message), (js ''customer_phone'', JStr (customerPhone settings)),
                   (js ''customer_name'', JStr (js_trim nm))]"
    by (auto simp: send_payload_def)
  have f: "\<forall>fetch. sendMessage pf fetch started ended settings message =
             sendMessage pf (\<lambda>r. fetch \<lparr>req_url = normalizeBaseUrl (apiBaseUrl settings) @ js ''/v1/messages/simple/'' @ c,
                req_method = js ''POST'',
                req_headers = [(js ''Content-Type'', js ''application/json'')],
                req_body = JSON_stringify pf (JObj (send_payload settings message))\<rparr>) started ended settings message"
    by (simp add: sendMessage_def r)
  from r normalizeBaseUrl_spec [of "apiBaseUrl settings"] p1 p2 f show ?thesis by blast
qed

theorem send_request_shape_witness:
  "send_request example_platform
      \<lparr>companyId = js ''acme'', customerPhone = js ''5511999999999'',
        customerName = Some (js '' Victor ''), apiBaseUrl = Some (js '' https://api.zibb.com.br// '')\<rparr> (js ''oi'')
   = Inr \<lparr>req_url = js ''https://api.zibb.com.br/v1/messages/simple/acme'', req_method = js ''POST'',
                req_headers = [(js ''Content-Type'', js ''application/json'')],
          req_body = js ''{\"message\":\"oi\",\"customer_phone\":\"5511999999999\",\"customer_name\":\"Victor\"}''\<rparr>
   \<and> send_payload example_settings (js ''oi'')
     = [(js ''message'', JStr (js ''oi'')), (js ''customer_phone'', JStr (js ''5511999999999''))]"
proof -
  let ?s = "\<lparr>companyId = js ''acme'', customerPhone = js ''5511999999999'',
        customerName = Some (js '' Victor ''), apiBaseUrl = Some (js '' https://api.zibb.com.br// '')\<rparr>"
  have e: "encodeURIComponent example_platform (companyId ?s) = Some (js ''acme'')"
    by (simp add: example_platform_def)
  have e2: "encodeURIComponent example_platform (companyId example_settings) = Some (js ''acme'')"
    by (simp add: example_platform_def example_settings_def)
  have t: "js_trim (js '' Victor '') = js ''Victor''"
    by (simp add: js_trim_def is_ws_def js_def)
  have n: "normalizeBaseUrl (Some (js '' https://api.zibb.com.br// '')) = js ''https://api.zibb.com.br''"
    by (simp add: normalizeBaseUrl_def strip_trailing_slashes_def js_trim_def is_ws_def js_def)
  note th = send_request_shape [OF e, where message = "js ''oi''" and started = 0 and ended = 0]
  from th have p: "send_payload ?s (js ''oi'')
      = [(js ''message'', JStr (js ''oi'')), (js ''customer_phone'', JStr (js ''5511999999999'')),
             (js ''customer_name'', JStr (js ''Victor''))]"
    by (simp add: t js_Nil_iff)
  have s: "JSON_stringify example_platform (JObj [(js ''message'', JStr (js ''oi'')), (js ''customer_phone'', JStr (js ''5511999999999'')),
             (js ''customer_name'', JStr (js ''Victor''))])
       = js ''{\"message\":\"oi\",\"customer_phone\":\"5511999999999\",\"customer_name\":\"Victor\"}''"
    by (simp add: example_platform_def example_json_def js_eq_iff)
  from send_request_shape [OF e2, where message = "js ''oi''" and started = 0 and ended = 0]
  have q: "send_payload example_settings (js ''oi'')
     = [(js ''message'', JStr (js ''oi'')), (js ''customer_phone'', JStr (js ''5511999999999''))]"
    by (simp add: example_settings_def)
  from th q show ?thesis
    by (simp add: n p s js_append)
qed

subsection \<open>The JSON inspector\<close>

lemma getNamedArrayLabel_spec: "getNamedArrayLabel item i = array_label_spec item i"
proof (cases "isPlainObject item")
  case True
  then show ?thesis
    by (simp add: getNamedArrayLabel_def array_label_spec_def non_blank_string_def split: jsval.splits)
next
  case False
  then have "js_get item k = JUndefined" for k by (cases item) simp_all
  with False show ?thesis
    by (simp add: getNamedArrayLabel_def array_label_spec_def non_blank_string_def)
qed

lemma mset_insert_by: "mset (insert_by cmp x ys) = add_mset x (mset ys)"
  by (induction ys) simp_all

lemma mset_sort_by: "mset (sort_by cmp xs) = mset xs"
  by (induction xs) (simp_all add: sort_by_def mset_insert_by)

lemma set_insert_by: "set (insert_by cmp x ys) = insert x (set ys)"
  by (induction ys) auto

lemma set_sort_by: "set (sort_by cmp xs) = set xs"
  by (induction xs) (simp_all add: sort_by_def set_insert_by)

lemma sorted_insert_by:
  assumes tot: "\<forall>a\<in>S. \<forall>b\<in>S. cmp a b \<le> 0 \<or> cmp b a \<le> 0"
    and tr: "\<forall>a\<in>S. \<forall>b\<in>S. \<forall>c\<in>S. cmp a b \<le> 0 \<and> cmp b c \<le> 0 \<longrightarrow> cmp a c \<le> 0"
    and x: "x \<in> S"
  shows "set ys \<subseteq> S \<Longrightarrow> sorted_wrt (\<lambda>a b. cmp a b \<le> 0) ys
          \<Longrightarrow> sorted_wrt (\<lambda>a b. cmp a b \<le> 0) (insert_by cmp x ys)"
proof (induction ys)
  case Nil
  then show ?case by simp
next
  case (Cons y ys)
  show ?case
  proof (cases "cmp x y \<le> 0")
    case True
    have "cmp x z \<le> 0" if "z \<in> set ys" for z
    proof -
      from Cons.prems that have "cmp y z \<le> 0" by simp
      with True tr x Cons.prems(1) that show ?thesis by (meson list.set_intros subsetD)
    qed
    with True Cons.prems show ?thesis by simp
  next
    case False
    with tot x Cons.prems(1) have yx: "cmp y x \<le> 0" by (meson list.set_intros(1) subsetD)
    from Cons have "sorted_wrt (\<lambda>a b. cmp a b \<le> 0) (insert_by cmp x ys)" by simp
    with False yx Cons.prems show ?thesis by (auto simp: set_insert_by)
  qed
qed

lemma sorted_sort_by:
  assumes tot: "\<forall>a\<in>S. \<forall>b\<in>S. cmp a b \<le> 0 \<or> cmp b a \<le> 0"
    and tr: "\<forall>a\<in>S. \<forall>b\<in>S. \<forall>c\<in>S. cmp a b \<le> 0 \<and> cmp b c \<le> 0 \<longrightarrow> cmp a c \<le> 0"
  shows "set xs \<subseteq> S \<Longrightarrow> sorted_wrt (\<lambda>a b. cmp a b \<le> 0) (sort_by cmp xs)"
proof (induction xs)
  case Nil
  then show ?case by (simp add: sort_by_def)
next
  case (Cons x xs)
  then have "sorted_wrt (\<lambda>a b. cmp a b \<le> 0) (sort_by cmp xs)" by simp
  moreover have "set (sort_by cmp xs) \<subseteq> S" using Cons.prems by (simp add: set_sort_by)
  moreover have "x \<in> S" using Cons.prems by simp
  ultimately have "sorted_wrt (\<lambda>a b. cmp a b \<le> 0) (insert_by cmp x (sort_by cmp xs))"
    using sorted_insert_by [OF tot tr] by blast
  then show ?case by (simp add: sort_by_def)
qed

lemma enumerate_nth: "enumerate n xs = map (\<lambda>i. (n + i, xs ! i)) [0..<length xs]"
proof (induction xs arbitrary: n rule: rev_induct)
  case Nil
  then show ?case by simp
next
  case (snoc x xs)
  then show ?case by (simp add: enumerate_append_eq nth_append)
qed

lemma node_entries_array:
  "node_entries pf (JArr xs) =
     map (\<lambda>i. \<lparr>e_key = show_nat i, e_value = xs ! i, e_label = array_label_spec (xs ! i) i\<rparr>) [0..<length xs]"
  by (simp add: node_entries_def getNamedArrayLabel_spec comp_def enumerate_nth [of 0, simplified])

lemma compare_units_total: "compare_units a b \<le> 0 \<or> compare_units b a \<le> 0"
  by (induction a b rule: compare_units.induct) auto

lemma compare_units_trans:
  "compare_units a b \<le> 0 \<Longrightarrow> compare_units b c \<le> 0 \<Longrightarrow> compare_units a c \<le> 0"
proof (induction a b arbitrary: c rule: compare_units.induct)
  case 1
  then show ?case by simp
next
  case (2 d ds)
  then show ?case by (cases c) simp_all
next
  case (3 c' cs)
  then show ?case by simp
next
  case (4 x xs y ys)
  show ?case
  proof (cases c)
    case Nil
    with 4 show ?thesis by (simp split: if_splits)
  next
    case (Cons z zs)
    with 4 show ?thesis by (auto split: if_splits)
  qed
qed

lemma filter_insert_by:
  assumes tr: "\<forall>a\<in>S. \<forall>b\<in>S. \<forall>c\<in>S. cmp a b \<le> 0 \<and> cmp b c \<le> 0 \<longrightarrow> cmp a c \<le> 0"
    and x: "x \<in> S" and k: "k \<in> S"
  shows "set ys \<subseteq> S \<Longrightarrow>
         filter (\<lambda>y. cmp y k \<le> 0 \<and> cmp k y \<le> 0) (insert_by cmp x ys)
           = filter (\<lambda>y. cmp y k \<le> 0 \<and> cmp k y \<le> 0) (x # ys)"
proof (induction ys)
  case Nil
  then show ?case by simp
next
  case (Cons y ys)
  show ?case
  proof (cases "cmp x y \<le> 0")
    case True
    then show ?thesis by simp
  next
    case False
    from Cons.prems have y: "y \<in> S" by simp
    have n: "\<not> ((cmp x k \<le> 0 \<and> cmp k x \<le> 0) \<and> (cmp y k \<le> 0 \<and> cmp k y \<le> 0))"
      using False tr x k y by blast
    from Cons have ih: "filter (\<lambda>y. cmp y k \<le> 0 \<and> cmp k y \<le> 0) (insert_by cmp x ys)
           = filter (\<lambda>y. cmp y k \<le> 0 \<and> cmp k y \<le> 0) (x # ys)" by simp
    from False have "filter (\<lambda>y. cmp y k \<le> 0 \<and> cmp k y \<le> 0) (insert_by cmp x (y # ys))
        = filter (\<lambda>y. cmp y k \<le> 0 \<and> cmp k y \<le> 0) (y # insert_by cmp x ys)" by simp
    also have "\<dots> = filter (\<lambda>y. cmp y k \<le> 0 \<and> cmp k y \<le> 0) (y # x # ys)"
      using ih by simp
    also have "\<dots> = filter (\<lambda>y. cmp y k \<le> 0 \<and> cmp k y \<le> 0) (x # y # ys)"
      using n by auto
    finally show ?thesis .
  qed
qed

lemma filter_sort_by:
  assumes tr: "\<forall>a\<in>S. \<forall>b\<in>S. \<forall>c\<in>S. cmp a b \<le> 0 \<and> cmp b c \<le> 0 \<longrightarrow> cmp a c \<le> 0"
    and k: "k \<in> S"
  shows "set xs \<subseteq> S \<Longrightarrow>
         filter (\<lambda>y. cmp y k \<le> 0 \<and> cmp k y \<le> 0) (sort_by cmp xs)
           = filter (\<lambda>y. cmp y k \<le> 0 \<and> cmp k y \<le> 0) xs"
proof (induction xs)
  case Nil
  then show ?case by (simp add: sort_by_def)
next
  case (Cons x xs)
  then have ih: "filter (\<lambda>y. cmp y k \<le> 0 \<and> cmp k y \<le> 0) (sort_by cmp xs)
           = filter (\<lambda>y. cmp y k \<le> 0 \<and> cmp k y \<le> 0) xs" by simp
  have "set (sort_by cmp xs) \<subseteq> S" using Cons.prems by (simp add: set_sort_by)
  moreover have "x \<in> S" using Cons.prems by simp
  ultimately have "filter (\<lambda>y. cmp y k \<le> 0 \<and> cmp k y \<le> 0) (insert_by cmp x (sort_by cmp xs))
           = filter (\<lambda>y. cmp y k \<le> 0 \<and> cmp k y \<le> 0) (x # sort_by cmp xs)"
    using filter_insert_by [OF tr _ k] by blast
  then show ?case using ih by (simp add: sort_by_def)
qed

lemma collation_ranks:
  "collation_rank (js ''_'') = 0" "collation_rank (js ''2'') = 1" "collation_rank (js ''a'') = 2"
  "collation_rank (js ''b'') = 3" "collation_rank (js ''B'') = 4" "collation_rank (js ''c'') = 5"
  by (simp_all add: collation_rank_def example_collation_def js_eq_iff)

lemma example_localeCompare: "localeCompare example_platform = collation_compare"
  by (simp add: example_platform_def)

lemma example_sorted_keys:
  "map e_label (node_entries example_platform (JObj [(js ''b'', JNum 1), (js ''a'', JNum 2), (js ''c'', JNull)]))
     = [js ''a'', js ''b'', js ''c'']"
  by (simp add: node_entries_def sortKeys_def sort_by_def example_localeCompare collation_compare_def
      collation_ranks)

lemma example_collated_keys:
  "map e_label (node_entries example_platform
      (JObj [(js ''b'', JNum 1), (js ''B'', JNum 2), (js ''_'', JNum 3), (js ''2'', JNum 4),
             (js ''a'', JNum 5)]))
     = [js ''_'', js ''2'', js ''a'', js ''b'', js ''B'']"
  by (simp add: node_entries_def sortKeys_def sort_by_def example_localeCompare collation_compare_def
      collation_ranks)

lemma example_units:
  "compare_units (js ''_'') (js ''2'') = 1" "compare_units (js ''b'') (js ''B'') = 1"
  "compare_units (js ''a'') (js ''B'') = 1"
  "compare_units (js ''a'') (js ''b'') = - 1" "compare_units (js ''b'') (js ''c'') = - 1"
  "compare_units (js ''a'') (js ''c'') = - 1"
  "compare_units (js ''b'') (js ''a'') = 1" "compare_units (js ''c'') (js ''b'') = 1"
  "compare_units (js ''c'') (js ''a'') = 1"
  "compare_units (js ''a'') (js ''a'') = 0" "compare_units (js ''b'') (js ''b'') = 0"
  "compare_units (js ''c'') (js ''c'') = 0"
  by (simp_all add: js_def)

lemma show_nat_two: "show_nat 2 = js ''2''" by (simp add: show_nat.simps [of 2] js_def)
lemma trim_example_name: "js_trim (js '' Ana '') = js ''Ana''" by (simp add: js_trim_def is_ws_def js_def)
lemma trim_example_blank: "js_trim (js '' '') = []" by (simp add: js_trim_def is_ws_def js_def)
lemma trim_example_id: "js_trim (js ''x1'') = js ''x1''" by (simp add: js_trim_def is_ws_def js_def)
lemma example_labels: "map (\<lambda>i. array_label_spec ([JObj [(js ''name'', JStr (js '' Ana ''))],
             JObj [(js ''name'', JStr (js '' '')), (js ''id'', JStr (js ''x1''))],
             JNum 5] ! i) i) [0, 1, 2] = [js ''[Ana]'', js ''[x1]'', js ''[2]'']"
    by (simp add: array_label_spec_def non_blank_string_def trim_example_name trim_example_blank trim_example_id show_nat_two js_eq_iff js_Nil_iff js_append)

lemma example_comparator: "(\<forall>a\<in>set (map fst [(js ''b'', JNum 1), (js ''a'', JNum 2), (js ''c'', JNull)]). \<forall>b\<in>set (map fst [(js ''b'', JNum 1), (js ''a'', JNum 2), (js ''c'', JNull)]).
          localeCompare example_platform a b \<le> 0 \<or> localeCompare example_platform b a \<le> 0)
      \<and> (\<forall>a\<in>set (map fst [(js ''b'', JNum 1), (js ''a'', JNum 2), (js ''c'', JNull)]). \<forall>b\<in>set (map fst [(js ''b'', JNum 1), (js ''a'', JNum 2), (js ''c'', JNull)]). \<forall>c\<in>set (map fst [(js ''b'', JNum 1), (js ''a'', JNum 2), (js ''c'', JNull)]).
          localeCompare example_platform a b \<le> 0 \<and> localeCompare example_platform b c \<le> 0
          \<longrightarrow> localeCompare example_platform a c \<le> 0)"
    by (simp add: example_localeCompare collation_compare_def collation_ranks)

lemma example_agreement:
  "\<forall>a\<in>set (map fst [(js ''b'', JNum 1), (js ''a'', JNum 2), (js ''c'', JNull)]). \<forall>b\<in>set (map fst [(js ''b'', JNum 1), (js ''a'', JNum 2), (js ''c'', JNull)]).
      (localeCompare example_platform a b \<le> 0) = (compare_units a b \<le> 0)"
    by (simp add: example_localeCompare collation_compare_def collation_ranks example_units)

lemma map_three: "length ys = 3 \<Longrightarrow> map f ys = [f (ys ! 0), f (ys ! 1), f (ys ! 2)]"
  by (auto simp: length_Suc_conv numeral_3_eq_3)

text \<open>
  C9, as the claim states it, fails for the keys of an object. The keys are sorted with
  \<open>localeCompare\<close>, which follows the collation of the locale and not the code units of
  the strings: an object with the keys \<open>b\<close>, \<open>B\<close>, \<open>_\<close>, \<open>2\<close> and \<open>a\<close> shows them as
  \<open>_\<close>, \<open>2\<close>, \<open>a\<close>, \<open>b\<close>, \<open>B\<close>, while in lexicographic order \<open>2\<close> comes before \<open>_\<close> and
  \<open>B\<close> before \<open>a\<close> and \<open>b\<close>.
\<close>

theorem node_entries_collation_counterexample:
  "map e_label (node_entries example_platform
      (JObj [(js ''b'', JNum 1), (js ''B'', JNum 2), (js ''_'', JNum 3), (js ''2'', JNum 4),
             (js ''a'', JNum 5)]))
     = [js ''_'', js ''2'', js ''a'', js ''b'', js ''B'']
   \<and> compare_units (js ''_'') (js ''2'') = 1
   \<and> compare_units (js ''a'') (js ''B'') = 1
   \<and> compare_units (js ''b'') (js ''B'') = 1
   \<and> \<not> sorted_wrt (\<lambda>a b. compare_units a b \<le> 0) [js ''_'', js ''2'', js ''a'', js ''b'', js ''B'']"
  by (simp add: example_collated_keys example_units)

text \<open>
  C9, amended. In the inspector, the entries of an array are labelled, in order, by the
  name of the entry when it is a non-blank string, else by its id when that is a
  non-blank string, else by its index (\<open>array_label_spec\<close>; the label shows the text
  trimmed, in square brackets). The entries of an object are labelled by its keys, each
  key once, with the value of that key, and in the order of \<open>localeCompare\<close>, the
  collation of the locale: whenever \<open>localeCompare\<close> is a total and transitive comparison
  of the keys, the labels are sorted by it, and keys that it does not tell apart keep the
  order they have in the object. This is the lexicographic order of the key strings
  (\<open>compare_units\<close>) when \<open>localeCompare\<close> agrees with it on the keys of the object.
\<close>

theorem node_entries_labels_and_order:
  "length (node_entries pf (JArr xs)) = length xs
   \<and> (\<forall>i<length xs. e_label (node_entries pf (JArr xs) ! i) = array_label_spec (xs ! i) i
                     \<and> e_value (node_entries pf (JArr xs) ! i) = xs ! i)
   \<and> mset (map e_label (node_entries pf (JObj kvs))) = mset (map fst kvs)
   \<and> (\<forall>e\<in>set (node_entries pf (JObj kvs)). e_key e = e_label e \<and> e_value e = js_get (JObj kvs) (e_label e))
   \<and> ((\<forall>a\<in>set (map fst kvs). \<forall>b\<in>set (map fst kvs).
          localeCompare pf a b \<le> 0 \<or> localeCompare pf b a \<le> 0)
      \<and> (\<forall>a\<in>set (map fst kvs). \<forall>b\<in>set (map fst kvs). \<forall>c\<in>set (map fst kvs).
          localeCompare pf a b \<le> 0 \<and> localeCompare pf b c \<le> 0 \<longrightarrow> localeCompare pf a c \<le> 0)
      \<longrightarrow> sorted_wrt (\<lambda>a b. localeCompare pf a b \<le> 0) (map e_label (node_entries pf (JObj kvs)))
        \<and> (\<forall>k\<in>set (map fst kvs).
              filter (\<lambda>y. localeCompare pf y k \<le> 0 \<and> localeCompare pf k y \<le> 0)
                     (map e_label (node_entries pf (JObj kvs)))
              = filter (\<lambda>y. localeCompare pf y k \<le> 0 \<and> localeCompare pf k y \<le> 0) (map fst kvs)))
   \<and> ((\<forall>a\<in>set (map fst kvs). \<forall>b\<in>set (map fst kvs).
          (localeCompare pf a b \<le> 0) = (compare_units a b \<le> 0))
      \<longrightarrow> sorted_wrt (\<lambda>a b. compare_units a b \<le> 0) (map e_label (node_entries pf (JObj kvs))))"
proof -
  have l: "map e_label (node_entries pf (JObj kvs)) = sortKeys pf (map fst kvs)"
    by (simp add: node_entries_def comp_def)
  have 1: "length (node_entries pf (JArr xs)) = length xs"
    by (simp add: node_entries_array)
  have 2: "\<forall>i<length xs. e_label (node_entries pf (JArr xs) ! i) = array_label_spec (xs ! i) i
                     \<and> e_value (node_entries pf (JArr xs) ! i) = xs ! i"
    by (simp add: node_entries_array)
  have 3: "mset (map e_label (node_entries pf (JObj kvs))) = mset (map fst kvs)"
    unfolding l by (simp add: sortKeys_def mset_sort_by)
  have 4: "\<forall>e\<in>set (node_entries pf (JObj kvs)). e_key e = e_label e \<and> e_value e = js_get (JObj kvs) (e_label e)"
    by (auto simp: node_entries_def)
  have 5: "(\<forall>a\<in>set (map fst kvs). \<forall>b\<in>set (map fst kvs).
          localeCompare pf a b \<le> 0 \<or> localeCompare pf b a \<le> 0)
      \<and> (\<forall>a\<in>set (map fst kvs). \<forall>b\<in>set (map fst kvs). \<forall>c\<in>set (map fst kvs).
          localeCompare pf a b \<le> 0 \<and> localeCompare pf b c \<le> 0 \<longrightarrow> localeCompare pf a c \<le> 0)
      \<longrightarrow> sorted_wrt (\<lambda>a b. localeCompare pf a b \<le> 0) (map e_label (node_entries pf (JObj kvs)))
        \<and> (\<forall>k\<in>set (map fst kvs).
              filter (\<lambda>y. localeCompare pf y k \<le> 0 \<and> localeCompare pf k y \<le> 0)
                     (map e_label (node_entries pf (JObj kvs)))
              = filter (\<lambda>y. localeCompare pf y k \<le> 0 \<and> localeCompare pf k y \<le> 0) (map fst kvs))"
  proof (intro impI conjI ballI)
    assume h: "(\<forall>a\<in>set (map fst kvs). \<forall>b\<in>set (map fst kvs).
          localeCompare pf a b \<le> 0 \<or> localeCompare pf b a \<le> 0)
      \<and> (\<forall>a\<in>set (map fst kvs). \<forall>b\<in>set (map fst kvs). \<forall>c\<in>set (map fst kvs).
          localeCompare pf a b \<le> 0 \<and> localeCompare pf b c \<le> 0 \<longrightarrow> localeCompare pf a c \<le> 0)"
    show "sorted_wrt (\<lambda>a b. localeCompare pf a b \<le> 0) (map e_label (node_entries pf (JObj kvs)))"
      unfolding l sortKeys_def
      by (rule sorted_sort_by [where S = "set (map fst kvs)"]) (use h in blast)+
    fix k
    assume k: "k \<in> set (map fst kvs)"
    from h have tr: "\<forall>a\<in>set (map fst kvs). \<forall>b\<in>set (map fst kvs). \<forall>c\<in>set (map fst kvs).
          localeCompare pf a b \<le> 0 \<and> localeCompare pf b c \<le> 0 \<longrightarrow> localeCompare pf a c \<le> 0"
      by (rule conjunct2)
    show "filter (\<lambda>y. localeCompare pf y k \<le> 0 \<and> localeCompare pf k y \<le> 0)
                     (map e_label (node_entries pf (JObj kvs)))
              = filter (\<lambda>y. localeCompare pf y k \<le> 0 \<and> localeCompare pf k y \<le> 0) (map fst kvs)"
      unfolding l sortKeys_def by (rule filter_sort_by [OF tr k]) simp
  qed
  have 6: "(\<forall>a\<in>set (map fst kvs). \<forall>b\<in>set (map fst kvs).
          (localeCompare pf a b \<le> 0) = (compare_units a b \<le> 0))
      \<longrightarrow> sorted_wrt (\<lambda>a b. compare_units a b \<le> 0) (map e_label (node_entries pf (JObj kvs)))"
  proof
    assume g: "\<forall>a\<in>set (map fst kvs). \<forall>b\<in>set (map fst kvs).
          (localeCompare pf a b \<le> 0) = (compare_units a b \<le> 0)"
    have tot: "\<forall>a\<in>set (map fst kvs). \<forall>b\<in>set (map fst kvs).
          localeCompare pf a b \<le> 0 \<or> localeCompare pf b a \<le> 0"
      using g compare_units_total by blast
    have tr: "\<forall>a\<in>set (map fst kvs). \<forall>b\<in>set (map fst kvs). \<forall>c\<in>set (map fst kvs).
          localeCompare pf a b \<le> 0 \<and> localeCompare pf b c \<le> 0 \<longrightarrow> localeCompare pf a c \<le> 0"
      using g compare_units_trans by blast
    have s: "sorted_wrt (\<lambda>a b. localeCompare pf a b \<le> 0) (sort_by (localeCompare pf) (map fst kvs))"
      by (rule sorted_sort_by [where S = "set (map fst kvs)", OF tot tr]) simp
    have "sorted_wrt (\<lambda>a b. compare_units a b \<le> 0) (sort_by (localeCompare pf) (map fst kvs))"
      by (rule sorted_wrt_mono_rel [OF _ s]) (use g in \<open>simp add: set_sort_by\<close>)
    then show "sorted_wrt (\<lambda>a b. compare_units a b \<le> 0) (map e_label (node_entries pf (JObj kvs)))"
      unfolding l sortKeys_def .
  qed
  from 1 2 3 4 5 6 show ?thesis by blast
qed

theorem node_entries_labels_and_order_witness:
  "map e_label (node_entries example_platform
      (JArr [JObj [(js ''name'', JStr (js '' Ana ''))],
             JObj [(js ''name'', JStr (js '' '')), (js ''id'', JStr (js ''x1''))],
             JNum 5]))
     = [js ''[Ana]'', js ''[x1]'', js ''[2]'']
   \<and> map e_label (node_entries example_platform
      (JObj [(js ''b'', JNum 1), (js ''a'', JNum 2), (js ''c'', JNull)]))
     = [js ''a'', js ''b'', js ''c'']
   \<and> sorted_wrt (\<lambda>a b. localeCompare example_platform a b \<le> 0) [js ''a'', js ''b'', js ''c'']
   \<and> sorted_wrt (\<lambda>a b. compare_units a b \<le> 0) [js ''a'', js ''b'', js ''c'']"
proof -
  let ?xs = "[JObj [(js ''name'', JStr (js '' Ana ''))],
             JObj [(js ''name'', JStr (js '' '')), (js ''id'', JStr (js ''x1''))],
             JNum 5]"
  let ?kvs = "[(js ''b'', JNum 1), (js ''a'', JNum 2), (js ''c'', JNull)]"
  note t = node_entries_labels_and_order [of example_platform ?xs ?kvs]
  from t [THEN conjunct1] have len: "length (node_entries example_platform (JArr ?xs)) = 3" by simp
  note lab = t [THEN conjunct2, THEN conjunct1, rule_format, THEN conjunct1]
  have l0: "e_label (node_entries example_platform (JArr ?xs) ! 0) = array_label_spec (?xs ! 0) 0"
    by (rule lab) simp
  have l1: "e_label (node_entries example_platform (JArr ?xs) ! 1) = array_label_spec (?xs ! 1) 1"
    by (rule lab) simp
  have l2: "e_label (node_entries example_platform (JArr ?xs) ! 2) = array_label_spec (?xs ! 2) 2"
    by (rule lab) simp
  have a: "map e_label (node_entries example_platform (JArr ?xs)) = [js ''[Ana]'', js ''[x1]'', js ''[2]'']"
    using example_labels unfolding map_three [OF len] l0 l1 l2 by simp
  note rest = t [THEN conjunct2, THEN conjunct2, THEN conjunct2, THEN conjunct2]
  from rest [THEN conjunct1, THEN mp, OF example_comparator, THEN conjunct1]
  have s1: "sorted_wrt (\<lambda>a b. localeCompare example_platform a b \<le> 0)
      (map e_label (node_entries example_platform (JObj ?kvs)))" .
  from rest [THEN conjunct2, THEN mp, OF example_agreement]
  have s2: "sorted_wrt (\<lambda>a b. compare_units a b \<le> 0)
      (map e_label (node_entries example_platform (JObj ?kvs)))" .
  from s1 s2 a show ?thesis unfolding example_sorted_keys by simp
qed

subsection \<open>Text that holds JSON segments\<close>

lemma tryParse_cases:
  "tryParseDisparoItemsFromText pf text =
     (if text \<noteq> [] \<and> js_trim text \<noteq> []
         \<and> (prefix (js ''{'') (js_trim text) \<or> prefix (js ''['') (js_trim text))
         \<and> js_includes (js_trim text) (js ''\"type\"'')
      then (case JSON_parse pf (js_trim text) of
              None \<Rightarrow> Inr None
            | Some (JArr xs) \<Rightarrow> Inr (if push_items [] xs \<noteq> [] then Some (push_items [] xs) else None)
            | Some (JObj kvs) \<Rightarrow> Inr (Some [JObj kvs])
            | Some v \<Rightarrow> Inr None)
      else Inr None)"
  by (simp add: tryParseDisparoItemsFromText_def parse_items_try_def Let_def
      split: option.splits jsval.splits)

lemma push_items_Nil: "push_items [] [] = []"
  by simp

lemma render_text_item:
  assumes "is_object it" and "js_get it (js ''type'') = JStr (js ''text'')"
    and "js_get it (js ''message'') = JStr text"
  shows "render_item pf w nested it =
     (if text = [] then Inr []
      else case tryParseDisparoItemsFromText pf text of
             Inl e \<Rightarrow> Inl (Uncaught e)
           | Inr (Some parsedItems) \<Rightarrow>
               if parsedItems \<noteq> [] then map_sum id (\<lambda>r. [RNested r]) (nested parsedItems)
               else Inr [RText text]
           | Inr None \<Rightarrow> Inr [RText text])"
  using assms by (simp add: render_item_def)

lemma text_item_fields:
  "is_object (text_item text)" "js_get (text_item text) (js ''type'') = JStr (js ''text'')"
  "js_get (text_item text) (js ''message'') = JStr text"
  by (simp_all add: text_item_def js_eq_iff)

text \<open>
  C7. \<open>tryParseDisparoItemsFromText\<close> returns for every string and never throws. It
  returns \<open>null\<close> when the trimmed text fails to parse, parses to something that is
  neither an object nor an array, or parses to an array that gives no segment. It
  returns segments only when there is at least one, the trimmed text starts with \<open>{\<close> or
  \<open>[\<close>, contains \<open>"type"\<close> and parses to an object or to a non-empty array. Where it
  returns \<open>null\<close> for the message of a text segment, \<open>MessageContent\<close> renders that segment
  as the literal text (and renders nothing for an empty text).
\<close>

theorem tryParseDisparoItemsFromText_heuristic:
  "(\<exists>r. tryParseDisparoItemsFromText pf text = Inr r)
   \<and> (JSON_parse pf (js_trim text) = None
        \<or> (\<exists>v. JSON_parse pf (js_trim text) = Some v \<and> \<not> is_object v)
        \<or> (\<exists>xs. JSON_parse pf (js_trim text) = Some (JArr xs) \<and> push_items [] xs = [])
      \<longrightarrow> tryParseDisparoItemsFromText pf text = Inr None)
   \<and> (\<forall>items. tryParseDisparoItemsFromText pf text = Inr (Some items) \<longrightarrow>
        items \<noteq> []
        \<and> (prefix (js ''{'') (js_trim text) \<or> prefix (js ''['') (js_trim text))
        \<and> js_includes (js_trim text) (js ''\"type\"'')
        \<and> (\<exists>v. JSON_parse pf (js_trim text) = Some v
               \<and> (isPlainObject v \<or> (\<exists>xs. v = JArr xs \<and> xs \<noteq> []))))
   \<and> (\<forall>it. tryParseDisparoItemsFromText pf text = Inr None \<and> is_object it
          \<and> js_get it (js ''type'') = JStr (js ''text'') \<and> js_get it (js ''message'') = JStr text \<longrightarrow>
        MessageContent pf w (Suc n) [it] = Inr (if text = [] then [] else [RText text]))"
proof -
  have 1: "\<exists>r. tryParseDisparoItemsFromText pf text = Inr r"
    by (simp add: tryParse_cases split: option.splits jsval.splits)
  have 2: "JSON_parse pf (js_trim text) = None
        \<or> (\<exists>v. JSON_parse pf (js_trim text) = Some v \<and> \<not> is_object v)
        \<or> (\<exists>xs. JSON_parse pf (js_trim text) = Some (JArr xs) \<and> push_items [] xs = [])
      \<longrightarrow> tryParseDisparoItemsFromText pf text = Inr None"
    by (auto simp: tryParse_cases split: option.splits jsval.splits)
  have 3: "\<forall>items. tryParseDisparoItemsFromText pf text = Inr (Some items) \<longrightarrow>
        items \<noteq> []
        \<and> (prefix (js ''{'') (js_trim text) \<or> prefix (js ''['') (js_trim text))
        \<and> js_includes (js_trim text) (js ''\"type\"'')
        \<and> (\<exists>v. JSON_parse pf (js_trim text) = Some v
               \<and> (isPlainObject v \<or> (\<exists>xs. v = JArr xs \<and> xs \<noteq> [])))"
    by (auto simp: tryParse_cases split: option.splits jsval.splits if_splits)
  have 4: "\<forall>it. tryParseDisparoItemsFromText pf text = Inr None \<and> is_object it
          \<and> js_get it (js ''type'') = JStr (js ''text'') \<and> js_get it (js ''message'') = JStr text \<longrightarrow>
        MessageContent pf w (Suc n) [it] = Inr (if text = [] then [] else [RText text])"
    by (simp add: render_text_item)
  from 1 2 3 4 show ?thesis by blast
qed

theorem tryParseDisparoItemsFromText_heuristic_witness:
  "tryParseDisparoItemsFromText example_platform (js ''[{\"type\":\"text\",\"message\":\"oi\"}]'')
     = Inr (Some [JObj [(js ''type'', JStr (js ''text'')), (js ''message'', JStr (js ''oi''))]])
   \<and> js_includes (js_trim (js ''[{\"type\":\"text\",\"message\":\"oi\"}]'')) (js ''\"type\"'')
   \<and> tryParseDisparoItemsFromText example_platform (js ''{\"type\"'') = Inr None
   \<and> MessageContent example_platform
       \<lparr>location_href = js ''https://app.example/chat?thread_id=T1'', location_origin = js ''https://app.example''\<rparr>
       (Suc 0) [text_item (js ''{\"type\"'')]
     = Inr [RText (js ''{\"type\"'')]"
proof -
  let ?w = "\<lparr>location_href = js ''https://app.example/chat?thread_id=T1'', location_origin = js ''https://app.example''\<rparr>"
  have t1: "js_trim (js ''{\"type\"'') = js ''{\"type\"''"
    by (simp add: js_trim_def is_ws_def js_def)
  have p: "JSON_parse example_platform (js_trim (js ''{\"type\"'')) = None"
    unfolding t1 by (simp add: example_platform_def example_json_def js_eq_iff)
  note t = tryParseDisparoItemsFromText_heuristic [of example_platform "js ''{\"type\"''" ?w 0]
  from t p have n: "tryParseDisparoItemsFromText example_platform (js ''{\"type\"'') = Inr None"
    by blast
  with t text_item_fields [of "js ''{\"type\"''"]
  have m: "MessageContent example_platform ?w (Suc 0) [text_item (js ''{\"type\"'')]
     = Inr [RText (js ''{\"type\"'')]"
    by (simp add: js_Nil_iff)
  have t2: "js_trim (js ''[{\"type\":\"text\",\"message\":\"oi\"}]'') = js ''[{\"type\":\"text\",\"message\":\"oi\"}]''"
    by (simp add: js_trim_def is_ws_def js_def)
  have i: "js_includes (js ''[{\"type\":\"text\",\"message\":\"oi\"}]'') (js ''\"type\"'')"
    by (simp add: js_def)
  have s: "tryParseDisparoItemsFromText example_platform (js ''[{\"type\":\"text\",\"message\":\"oi\"}]'')
     = Inr (Some [JObj [(js ''type'', JStr (js ''text'')), (js ''message'', JStr (js ''oi''))]])"
    by (simp add: tryParse_cases t2 i js_Nil_iff example_platform_def example_json_def js_eq_iff)
       (simp add: js_def)
  from s tryParseDisparoItemsFromText_heuristic
      [of example_platform "js ''[{\"type\":\"text\",\"message\":\"oi\"}]''" ?w 0]
  have c: "js_includes (js_trim (js ''[{\"type\":\"text\",\"message\":\"oi\"}]'')) (js ''\"type\"'')"
    by blast
  from n m s c show ?thesis by simp
qed


subsection \<open>Call-to-action links\<close>

lemma usp_set_absent: "\<not> usp_has ps k \<Longrightarrow> usp_set ps k v = ps @ [(k, v)]"
  by (induction ps) (auto simp: usp_has_def)

lemma render_cta_item:
  assumes "is_object it" and "js_get it (js ''type'') = JStr (js ''cta_url'')"
    and "cta_href pf w (js_get it (js ''url'')) = JStr h" and "h \<noteq> []"
  shows "\<exists>m d. render_item pf w nested it = Inr [RLink m h d]"
  using assms by (simp add: render_item_def cta_link_def js_eq_iff Let_def)

lemma example_unparsable_url: "withRedirectUrlParam example_platform
       \<lparr>location_href = js ''https://app.example/chat?thread_id=T1'', location_origin = js ''https://app.example''\<rparr>
       (js ''http://['') (js ''https://app.example/chat?thread_id=T1'') = js ''http://[''"
  by (simp add: withRedirectUrlParam_def example_platform_def example_urls_def js_eq_iff js_Nil_iff)

lemma example_existing_redirect: "withRedirectUrlParam example_platform
       \<lparr>location_href = js ''https://app.example/chat?thread_id=T1'', location_origin = js ''https://app.example''\<rparr>
       (js ''https://x?redirect_url=z'') (js ''https://app.example/chat?thread_id=T1'') = js ''https://x/?redirect_url=z''"
  by (simp add: withRedirectUrlParam_def example_platform_def example_urls_def example_hrefs_def usp_has_def js_eq_iff js_Nil_iff)

lemma example_added_redirect: "withRedirectUrlParam example_platform
       \<lparr>location_href = js ''https://app.example/chat?thread_id=T1'', location_origin = js ''https://app.example''\<rparr>
       (js ''https://x'') (js ''https://app.example/chat?thread_id=T1'')
     = js ''https://x/?redirect_url=https%3A%2F%2Fapp.example%2Fchat%3Fthread_id%3DT1''"
  by (simp add: withRedirectUrlParam_def example_platform_def example_urls_def example_hrefs_def usp_has_def js_eq_iff js_Nil_iff)

text \<open>
  C3, as the claim states it, fails in both of its parts. A \<open>url\<close> that does not parse
  (\<open>http://[\<close>) is rendered as it is, with no \<open>redirect_url\<close>: the \<open>catch\<close> of
  \<open>withRedirectUrlParam\<close> returns the \<open>href\<close> it was given. And a \<open>url\<close> that has a
  \<open>redirect_url\<close> is not returned unchanged but as \<open>url.toString()\<close>, the serialization of
  the parsed URL: \<open>https://x?redirect_url=z\<close> becomes \<open>https://x/?redirect_url=z\<close>.
\<close>

theorem cta_href_counterexample:
  "render_item example_platform
     \<lparr>location_href = js ''https://app.example/chat?thread_id=T1'', location_origin = js ''https://app.example''\<rparr>
     (\<lambda>xs. Inr [])
     (JObj [(js ''type'', JStr (js ''cta_url'')), (js ''url'', JStr (js ''http://['')), (js ''display'', JStr (js ''Open''))])
   = Inr [RLink None (js ''http://['') (JStr (js ''Open''))]
   \<and> \<not> js_includes (js ''http://['') (js ''redirect_url'')
   \<and> render_item example_platform
     \<lparr>location_href = js ''https://app.example/chat?thread_id=T1'', location_origin = js ''https://app.example''\<rparr>
     (\<lambda>xs. Inr [])
     (JObj [(js ''type'', JStr (js ''cta_url'')), (js ''url'', JStr (js ''https://x?redirect_url=z'')), (js ''display'', JStr (js ''Open''))])
   = Inr [RLink None (js ''https://x/?redirect_url=z'') (JStr (js ''Open''))]
   \<and> js ''https://x/?redirect_url=z'' \<noteq> js ''https://x?redirect_url=z''"
  by (simp add: render_item_def cta_link_def cta_href_def example_unparsable_url example_existing_redirect js_eq_iff js_Nil_iff) (simp add: js_def)

text \<open>
  C3, amended. For a call-to-action item with a non-empty string \<open>url\<close>, rendered while
  the address of the page is not empty, the \<open>href\<close> of the link is
  \<open>withRedirectUrlParam url page\<close>: the \<open>url\<close> itself when it does not parse as a URL
  (against the origin of the page); the serialization of the parsed URL, its parameters
  untouched, when these already have a \<open>redirect_url\<close>; and otherwise the serialization
  of the parsed URL with the parameter \<open>redirect_url\<close>, equal to the address of the
  page, added after its other parameters. The item renders as a link with that \<open>href\<close>
  when the \<open>href\<close> is not empty.
\<close>

theorem cta_href_redirect:
  assumes "u \<noteq> []" and "location_href w \<noteq> []"
    and "base = (if location_origin w \<noteq> [] then location_origin w else js ''http://localhost'')"
  shows "cta_href pf w (JStr u) = JStr (withRedirectUrlParam pf w u (location_href w))
   \<and> (URL_new pf u (Some base) = None \<longrightarrow> withRedirectUrlParam pf w u (location_href w) = u)
   \<and> (\<forall>url. URL_new pf u (Some base) = Some url \<and> usp_has (u_params url) (js ''redirect_url'')
         \<longrightarrow> withRedirectUrlParam pf w u (location_href w) = URL_href pf url)
   \<and> (\<forall>url. URL_new pf u (Some base) = Some url \<and> \<not> usp_has (u_params url) (js ''redirect_url'')
         \<longrightarrow> withRedirectUrlParam pf w u (location_href w)
               = URL_href pf (url\<lparr>u_params := u_params url @ [(js ''redirect_url'', location_href w)]\<rparr>))
   \<and> (\<forall>it nested. is_object it \<and> js_get it (js ''type'') = JStr (js ''cta_url'')
          \<and> js_get it (js ''url'') = JStr u \<and> withRedirectUrlParam pf w u (location_href w) \<noteq> []
         \<longrightarrow> (\<exists>m d. render_item pf w nested it
                      = Inr [RLink m (withRedirectUrlParam pf w u (location_href w)) d]))"
proof -
  have 1: "cta_href pf w (JStr u) = JStr (withRedirectUrlParam pf w u (location_href w))"
    using assms by (simp add: cta_href_def)
  have 2: "URL_new pf u (Some base) = None \<longrightarrow> withRedirectUrlParam pf w u (location_href w) = u"
    using assms by (simp add: withRedirectUrlParam_def)
  have 3: "\<forall>url. URL_new pf u (Some base) = Some url \<and> usp_has (u_params url) (js ''redirect_url'')
         \<longrightarrow> withRedirectUrlParam pf w u (location_href w) = URL_href pf url"
    using assms by (simp add: withRedirectUrlParam_def)
  have 4: "\<forall>url. URL_new pf u (Some base) = Some url \<and> \<not> usp_has (u_params url) (js ''redirect_url'')
         \<longrightarrow> withRedirectUrlParam pf w u (location_href w)
               = URL_href pf (url\<lparr>u_params := u_params url @ [(js ''redirect_url'', location_href w)]\<rparr>)"
    using assms by (simp add: withRedirectUrlParam_def usp_set_absent)
  have 5: "\<forall>it nested. is_object it \<and> js_get it (js ''type'') = JStr (js ''cta_url'')
          \<and> js_get it (js ''url'') = JStr u \<and> withRedirectUrlParam pf w u (location_href w) \<noteq> []
         \<longrightarrow> (\<exists>m d. render_item pf w nested it
                      = Inr [RLink m (withRedirectUrlParam pf w u (location_href w)) d])"
    using 1 render_cta_item by metis
  from 1 2 3 4 5 show ?thesis by blast
qed

theorem cta_href_redirect_witness:
  "render_item example_platform
     \<lparr>location_href = js ''https://app.example/chat?thread_id=T1'', location_origin = js ''https://app.example''\<rparr>
     (\<lambda>xs. Inr [])
     (JObj [(js ''type'', JStr (js ''cta_url'')), (js ''url'', JStr (js ''https://x'')), (js ''display'', JStr (js ''Open''))])
   = Inr [RLink None (js ''https://x/?redirect_url=https%3A%2F%2Fapp.example%2Fchat%3Fthread_id%3DT1'')
            (JStr (js ''Open''))]
   \<and> cta_href example_platform
       \<lparr>location_href = js ''https://app.example/chat?thread_id=T1'', location_origin = js ''https://app.example''\<rparr>
       (JStr (js ''https://x?redirect_url=z'')) = JStr (js ''https://x/?redirect_url=z'')
   \<and> cta_href example_platform
       \<lparr>location_href = js ''https://app.example/chat?thread_id=T1'', location_origin = js ''https://app.example''\<rparr>
       (JStr (js ''http://['')) = JStr (js ''http://['')"
proof -
  let ?w = "\<lparr>location_href = js ''https://app.example/chat?thread_id=T1'', location_origin = js ''https://app.example''\<rparr>"
  have l: "location_href ?w \<noteq> []"
    and o: "js ''https://app.example'' = (if location_origin ?w \<noteq> [] then location_origin ?w else js ''http://localhost'')"
    by (simp_all add: js_Nil_iff)
  have a: "js ''https://x'' \<noteq> []" and a2: "js ''https://x?redirect_url=z'' \<noteq> []"
    and a3: "js ''http://['' \<noteq> []"
    by (simp_all add: js_Nil_iff)
  note t = cta_href_redirect [OF a l o, of example_platform]
  have u: "URL_new example_platform (js ''https://x'') (Some (js ''https://app.example''))
     = Some \<lparr>u_base = js ''https://x/'', u_params = [], u_hash = []\<rparr>"
    by (simp add: example_platform_def example_urls_def js_eq_iff)
  have h: "URL_href example_platform \<lparr>u_base = js ''https://x/'',
       u_params = [(js ''redirect_url'', js ''https://app.example/chat?thread_id=T1'')], u_hash = []\<rparr>
     = js ''https://x/?redirect_url=https%3A%2F%2Fapp.example%2Fchat%3Fthread_id%3DT1''"
    by (simp add: example_platform_def example_hrefs_def js_eq_iff)
  from t u h have r: "withRedirectUrlParam example_platform ?w (js ''https://x'') (location_href ?w)
     = js ''https://x/?redirect_url=https%3A%2F%2Fapp.example%2Fchat%3Fthread_id%3DT1''"
    by (simp add: usp_has_def)
  from t r have 1: "render_item example_platform ?w (\<lambda>xs. Inr [])
     (JObj [(js ''type'', JStr (js ''cta_url'')), (js ''url'', JStr (js ''https://x'')), (js ''display'', JStr (js ''Open''))])
   = Inr [RLink None (js ''https://x/?redirect_url=https%3A%2F%2Fapp.example%2Fchat%3Fthread_id%3DT1'')
            (JStr (js ''Open''))]"
    by (simp add: render_item_def cta_link_def js_eq_iff js_Nil_iff)
  have u2: "URL_new example_platform (js ''https://x?redirect_url=z'') (Some (js ''https://app.example''))
     = Some \<lparr>u_base = js ''https://x/'', u_params = [(js ''redirect_url'', js ''z'')], u_hash = []\<rparr>"
    by (simp add: example_platform_def example_urls_def js_eq_iff)
  have h2: "URL_href example_platform \<lparr>u_base = js ''https://x/'',
       u_params = [(js ''redirect_url'', js ''z'')], u_hash = []\<rparr> = js ''https://x/?redirect_url=z''"
    by (simp add: example_platform_def example_hrefs_def js_eq_iff)
  from cta_href_redirect [OF a2 l o, of example_platform] u2 h2
  have 2: "cta_href example_platform ?w (JStr (js ''https://x?redirect_url=z'')) = JStr (js ''https://x/?redirect_url=z'')"
    by (simp add: usp_has_def)
  have u3: "URL_new example_platform (js ''http://['') (Some (js ''https://app.example'')) = None"
    by (simp add: example_platform_def example_urls_def js_eq_iff)
  from cta_href_redirect [OF a3 l o, of example_platform] u3
  have 3: "cta_href example_platform ?w (JStr (js ''http://['')) = JStr (js ''http://['')"
    by simp
  from 1 2 3 show ?thesis by simp
qed

subsection \<open>Failures of a send\<close>

lemma get_member_Some: "v \<noteq> JNull \<Longrightarrow> v \<noteq> JUndefined \<Longrightarrow> get_member v k = Some (js_get v k)"
  by (simp add: get_member_def)

lemma extractDisparoItems_Some:
  "v \<noteq> JNull \<Longrightarrow> v \<noteq> JUndefined \<Longrightarrow> \<exists>items. extractDisparoItems v = Some items"
  by (simp add: extractDisparoItems_def get_member_Some Let_def)

lemma sendMessage_failure:
  assumes "send_request pf settings message = Inr req"
    and "fetch req = Response st body"
    and "response_data pf st body \<noteq> JNull" and "response_data pf st body \<noteq> JUndefined"
    and "\<not> resp_ok st \<or> js_get (response_data pf st body) (js ''success'') = JBool False"
    and "js_String pf (if truthy (js_get (response_data pf st body) (js ''error''))
                       then js_get (response_data pf st body) (js ''error'')
                       else JStr (js ''Erro HTTP '' @ show_nat st)) = Some msg"
  shows "sendMessage pf fetch t0 t1 settings message =
           Inl (SendFailure \<lparr>f_message = msg, f_response = response_data pf st body, f_status = st,
                  f_rawText = body, f_url = req_url req, f_payload = send_payload settings message,
                  f_timingMs = max 0 (t1 - t0)\<rparr>)"
  using assms by (auto simp: sendMessage_def get_member_Some Let_def)

lemma sendMessage_rejects_iff:
  assumes "send_request pf settings message = Inr req"
    and "fetch req = Response st body"
    and "response_data pf st body \<noteq> JNull" and "response_data pf st body \<noteq> JUndefined"
  shows "(\<exists>e. sendMessage pf fetch t0 t1 settings message = Inl e) \<longleftrightarrow>
           (\<not> resp_ok st \<or> js_get (response_data pf st body) (js ''success'') = JBool False)"
proof (cases "\<not> resp_ok st \<or> js_get (response_data pf st body) (js ''success'') = JBool False")
  case True
  with assms show ?thesis
    by (auto simp: sendMessage_def get_member_Some Let_def split: option.splits)
next
  case False
  from extractDisparoItems_Some [OF assms(3,4)]
  obtain items where "extractDisparoItems (response_data pf st body) = Some items" by blast
  with False assms show ?thesis
    by (simp add: sendMessage_def get_member_Some Let_def)
qed

lemma parse_failure_data:
  "parse_body pf body = None \<Longrightarrow> response_data pf st body = invalid_response st"
  by (simp add: response_data_def)

lemma invalid_response_success:
  "js_get (invalid_response st) (js ''success'') = JBool False"
  by (simp add: invalid_response_def)

lemma onSend_begin_Some:
  assumes "onSend_begin pf uuid sentAt s0 = Some (pend, s1)"
  shows "messages s1 = messages s0 @ [p_userMsg pend]" and "p_sentAt pend = sentAt"
    and "p_text pend = js_trim (draft s0)" and "msg_role (p_userMsg pend) = User"
    and "msg_text (p_userMsg pend) = js_trim (draft s0)"
    and "p_prevThreadId pend = getThreadIdFromLocation pf (href s0)"
    and "href s1 = href s0"
  using assms by (auto simp: onSend_begin_def Let_def split: if_splits)

lemma send_request_url_nonempty:
  "send_request pf settings message = Inr req \<Longrightarrow> req_url req \<noteq> []"
  by (auto simp: send_request_def buildMessagesUrl_def Let_def js_Nil_iff split: option.splits sum.splits)

lemma onSend_failure_report:
  assumes "f_url f \<noteq> []" and "f_response f \<noteq> JUndefined"
  shows "error (onSend_failure pf uuid tm settings pend (SendFailure f) s1) = Some (f_message f)"
    and "\<exists>a. messages (onSend_failure pf uuid tm settings pend (SendFailure f) s1) = messages s1 @ [a]
           \<and> msg_role a = Assistant
           \<and> msg_text a = js ''Erro ao chamar o backend: '' @ f_message f
           \<and> msg_trace a = Some \<lparr>trace_url = f_url f, trace_method = js ''POST'',
                 trace_payload = f_payload f, trace_status = f_status f, trace_ok = False,
                 trace_json = f_response f, trace_rawText = f_rawText f,
                 trace_timingMs = t_receivedAt tm - p_sentAt pend\<rparr>"
  using assms by (simp_all add: onSend_failure_def error_message_def Let_def)

lemma onSend_unfold:
  "onSend_begin pf uuid (t_sentAt tm) s0 = Some (pend, s1) \<Longrightarrow>
   sendMessage pf fetch t0 t1 settings (p_text pend) = Inl e \<Longrightarrow>
   onSend pf fetch uuid tm t0 t1 settings s0 = (onSend_failure pf uuid tm settings pend e s1)\<lparr>loading := False\<rparr>"
  by (simp add: onSend_def onSend_finish_def)

lemma error_message_nonempty:
  assumes "js_String pf (if truthy err then err else JStr (js ''Erro HTTP '' @ show_nat st)) = Some msg"
    and "(\<exists>s. err = JStr s) \<or> \<not> truthy err"
  shows "msg \<noteq> []"
  using assms by (auto simp: js_String_def js_Nil_iff split: if_splits)

subsection \<open>A send that changes the thread\<close>



lemma messages_move_to_thread: "messages (move_to_thread pf t st) = messages st"
  by (simp add: move_to_thread_def split: prod.splits)





lemma trim_oi: "js_trim (js ''oi'') = js ''oi''"
  by (simp add: js_trim_def is_ws_def js_def)

lemma example_begin:
  "\<exists>pend s1. onSend_begin example_platform example_uuid (t_sentAt example_times) example_chat = Some (pend, s1)
     \<and> p_text pend = js ''oi'' \<and> messages s1 = messages example_chat @ [p_userMsg pend]
     \<and> p_prevThreadId pend = Some (js ''T1'')
     \<and> uuid_count s1 = 2 \<and> href s1 = href example_chat \<and> lastOpenMsg s1 = None
     \<and> msg_role (p_userMsg pend) = User \<and> msg_text (p_userMsg pend) = js ''oi''"
  by (simp add: onSend_begin_def example_chat_def trim_oi js_Nil_iff Let_def
      getThreadIdFromLocation_def example_platform_def example_urls_def js_eq_iff
      usp_get_def str_or_def str_or_empty_def non_empty_def)
     (simp add: js_trim_def is_ws_def js_def)

lemma example_request:
  "send_request example_platform example_settings (js ''oi'')
     = Inr \<lparr>req_url = js ''/v1/messages/simple/acme'', req_method = js ''POST'',
                req_headers = [(js ''Content-Type'', js ''application/json'')],
            req_body = js ''{\"message\":\"oi\",\"customer_phone\":\"5511999999999\"}''\<rparr>"
  by (simp add: send_request_def buildMessagesUrl_def example_settings_def example_platform_def
      normalizeBaseUrl_def js_trim_def send_payload_def example_json_def js_eq_iff js_append)

lemma example_null_data: "response_data example_platform st (Some (js ''null'')) = JNull"
  by (simp add: response_data_def parse_body_def example_platform_def example_json_def js_eq_iff)

lemma example_null_body:
  "sendMessage example_platform (\<lambda>r. Response st (Some (js ''null''))) 0 1 example_settings (js ''oi'')
     = Inl (Native NullRead)"
  by (simp add: sendMessage_def example_request example_null_data get_member_def Let_def)









lemma send_failure_reported:
  assumes b: "onSend_begin pf uuid (t_sentAt tm) s0 = Some (pend, s1)"
    and r: "send_request pf settings (p_text pend) = Inr req"
  shows "(fetch req = Rejected \<longrightarrow>
            sendMessage pf fetch t0 t1 settings (p_text pend) = Inl (Native FetchFailed))
   \<and> (\<forall>st body. fetch req = Response st body
          \<and> parse_body pf body \<noteq> Some JNull \<and> parse_body pf body \<noteq> Some JUndefined \<longrightarrow>
        ((\<exists>e. sendMessage pf fetch t0 t1 settings (p_text pend) = Inl e) \<longleftrightarrow>
           (\<not> resp_ok st \<or> parse_body pf body = None
            \<or> (\<exists>d. parse_body pf body = Some d \<and> js_get d (js ''success'') = JBool False)))
        \<and> (\<forall>msg.
              (\<not> resp_ok st \<or> parse_body pf body = None
               \<or> (\<exists>d. parse_body pf body = Some d \<and> js_get d (js ''success'') = JBool False))
              \<and> js_String pf (if truthy (js_get (response_data pf st body) (js ''error''))
                               then js_get (response_data pf st body) (js ''error'')
                               else JStr (js ''Erro HTTP '' @ show_nat st)) = Some msg \<longrightarrow>
              error (onSend pf fetch uuid tm t0 t1 settings s0) = Some msg
              \<and> (\<exists>a. messages (onSend pf fetch uuid tm t0 t1 settings s0)
                         = messages s0 @ [p_userMsg pend, a]
                    \<and> msg_role a = Assistant
                    \<and> msg_text a = js ''Erro ao chamar o backend: '' @ msg
                    \<and> msg_trace a = Some \<lparr>trace_url = req_url req, trace_method = js ''POST'',
                          trace_payload = send_payload settings (p_text pend), trace_status = st,
                          trace_ok = False, trace_json = response_data pf st body,
                          trace_rawText = body,
                          trace_timingMs = t_receivedAt tm - t_sentAt tm\<rparr>)
              \<and> ((\<exists>s. js_get (response_data pf st body) (js ''error'') = JStr s)
                   \<or> \<not> truthy (js_get (response_data pf st body) (js ''error'')) \<longrightarrow> msg \<noteq> [])))"
proof (intro conjI allI impI)
  assume "fetch req = Rejected"
  with r show "sendMessage pf fetch t0 t1 settings (p_text pend) = Inl (Native FetchFailed)"
    by (simp add: sendMessage_def)
next
  fix st body
  assume h: "fetch req = Response st body
          \<and> parse_body pf body \<noteq> Some JNull \<and> parse_body pf body \<noteq> Some JUndefined"
  let ?data = "response_data pf st body"
  let ?fail = "\<not> resp_ok st \<or> parse_body pf body = None
            \<or> (\<exists>d. parse_body pf body = Some d \<and> js_get d (js ''success'') = JBool False)"
  have d1: "?data \<noteq> JNull" and d2: "?data \<noteq> JUndefined"
    using h by (auto simp: response_data_def invalid_response_def split: option.splits)
  have f: "?fail \<longleftrightarrow> (\<not> resp_ok st \<or> js_get ?data (js ''success'') = JBool False)"
    by (cases "parse_body pf body") (simp_all add: response_data_def invalid_response_success)
  from h have resp: "fetch req = Response st body" by simp
  show "(\<exists>e. sendMessage pf fetch t0 t1 settings (p_text pend) = Inl e) \<longleftrightarrow> ?fail"
    unfolding f by (rule sendMessage_rejects_iff [where fetch = fetch, OF r resp d1 d2])
  fix msg
  assume m: "?fail \<and> js_String pf (if truthy (js_get ?data (js ''error''))
                               then js_get ?data (js ''error'')
                               else JStr (js ''Erro HTTP '' @ show_nat st)) = Some msg"
  let ?f = "\<lparr>f_message = msg, f_response = ?data, f_status = st,
                  f_rawText = body, f_url = req_url req, f_payload = send_payload settings (p_text pend),
                  f_timingMs = max 0 (t1 - t0)\<rparr>"
  from m f have fl: "\<not> resp_ok st \<or> js_get ?data (js ''success'') = JBool False" by blast
  from m have ms: "js_String pf (if truthy (js_get ?data (js ''error''))
                               then js_get ?data (js ''error'')
                               else JStr (js ''Erro HTTP '' @ show_nat st)) = Some msg" by blast
  have s: "sendMessage pf fetch t0 t1 settings (p_text pend) = Inl (SendFailure ?f)"
    by (rule sendMessage_failure [where fetch = fetch, OF r resp d1 d2 fl ms])
  have o: "onSend pf fetch uuid tm t0 t1 settings s0
      = (onSend_failure pf uuid tm settings pend (SendFailure ?f) s1)\<lparr>loading := False\<rparr>"
    by (rule onSend_unfold [OF b s])
  have u: "f_url ?f \<noteq> []" using send_request_url_nonempty [OF r] by simp
  have v: "f_response ?f \<noteq> JUndefined" using d2 by simp
  show "error (onSend pf fetch uuid tm t0 t1 settings s0) = Some msg"
    unfolding o using onSend_failure_report(1) [OF u v] by simp
  show "\<exists>a. messages (onSend pf fetch uuid tm t0 t1 settings s0) = messages s0 @ [p_userMsg pend, a]
                    \<and> msg_role a = Assistant
                    \<and> msg_text a = js ''Erro ao chamar o backend: '' @ msg
                    \<and> msg_trace a = Some \<lparr>trace_url = req_url req, trace_method = js ''POST'',
                          trace_payload = send_payload settings (p_text pend), trace_status = st,
                          trace_ok = False, trace_json = response_data pf st body,
                          trace_rawText = body,
                          trace_timingMs = t_receivedAt tm - t_sentAt tm\<rparr>"
    unfolding o using onSend_failure_report(2) [OF u v, of pf uuid tm settings pend s1]
      onSend_begin_Some(1,2) [OF b] by simp
  assume "(\<exists>s. js_get ?data (js ''error'') = JStr s) \<or> \<not> truthy (js_get ?data (js ''error''))"
  with ms show "msg \<noteq> []" by (rule error_message_nonempty)
qed


lemma invalid_response_error:
  "js_get (invalid_response st) (js ''error'')
     = JStr (js ''Resposta inv'' @ [0xE1] @ js ''lida ('' @ show_nat st @ js '')'')"
  by (simp add: invalid_response_def js_eq_iff)

text \<open>
  C5, as the claim states it, fails. A response with status 200 whose body is the JSON
  text \<open>null\<close> is 2xx, parses, and has no \<open>success === false\<close>, yet \<open>sendMessage\<close>
  rejects: reading \<open>data.success\<close> of \<open>null\<close> throws. It also rejects when \<open>fetch\<close> itself
  fails and there is no response at all. And for a response with status 500 and the
  body \<open>null\<close> the message appended by the send path does not carry the failed request
  and response: its trace has the status 0 and the URL \<open>(desconhecido)\<close>.
\<close>

theorem sendMessage_null_body_counterexample:
  "sendMessage example_platform (\<lambda>r. Response 200 (Some (js ''null''))) 0 1 example_settings (js ''oi'')
     = Inl (Native NullRead)
   \<and> resp_ok 200
   \<and> parse_body example_platform (Some (js ''null'')) = Some JNull
   \<and> js_get JNull (js ''success'') \<noteq> JBool False
   \<and> sendMessage example_platform (\<lambda>r. Rejected) 0 1 example_settings (js ''oi'')
     = Inl (Native FetchFailed)
   \<and> \<not> resp_ok 500
   \<and> map_option trace_status (msg_trace (last (messages (onSend example_platform
          (\<lambda>r. Response 500 (Some (js ''null''))) example_uuid example_times 0 1
          example_settings example_chat)))) = Some 0
   \<and> map_option trace_url (msg_trace (last (messages (onSend example_platform
          (\<lambda>r. Response 500 (Some (js ''null''))) example_uuid example_times 0 1
          example_settings example_chat)))) = Some (js ''(desconhecido)'')"
proof -
  from example_begin obtain pend s1 where
    b: "onSend_begin example_platform example_uuid (t_sentAt example_times) example_chat = Some (pend, s1)"
    and t: "p_text pend = js ''oi''" by blast
  have s: "sendMessage example_platform (\<lambda>r. Response 500 (Some (js ''null''))) 0 1 example_settings (p_text pend)
     = Inl (Native NullRead)"
    unfolding t by (rule example_null_body)
  have o: "onSend example_platform (\<lambda>r. Response 500 (Some (js ''null''))) example_uuid example_times 0 1
          example_settings example_chat
      = (onSend_failure example_platform example_uuid example_times example_settings pend (Native NullRead) s1)
          \<lparr>loading := False\<rparr>"
    by (rule onSend_unfold [OF b s])
  have 1: "parse_body example_platform (Some (js ''null'')) = Some JNull"
    by (simp add: parse_body_def example_platform_def example_json_def js_eq_iff)
  have 2: "sendMessage example_platform (\<lambda>r. Rejected) 0 1 example_settings (js ''oi'')
     = Inl (Native FetchFailed)"
    by (simp add: sendMessage_def example_request)
  show ?thesis
    unfolding o by (simp add: example_null_body 1 2 resp_ok_def onSend_failure_def Let_def)
qed

text \<open>
  C5, amended. \<open>sendMessage\<close> rejects when \<open>fetch\<close> fails. For an HTTP response whose body
  does not parse to \<open>null\<close>, it rejects if and only if the status is not 2xx, the body
  is no JSON (or cannot be read), or the parsed body has \<open>success === false\<close>. On each
  of these three failures the message \<open>msg\<close> of the rejection is: for a body that is no
  JSON, \<open>Resposta inv\<close>, the letter a with an acute accent, \<open>lida\<close> and the status in
  brackets, which is the error of the object put in place of the body; for a parsed body whose \<open>error\<close> is missing or falsy, \<open>Erro HTTP\<close> and
  the status; for a parsed body with a truthy \<open>error\<close>, its string conversion (the error
  itself when it is a string). When \<open>msg\<close> exists, the send path sets the inline error to
  \<open>msg\<close> and appends, after the user message, one assistant message whose trace carries the
  request (URL, payload) and the response (status, the parsed body or the object put in
  place of a body that is no JSON, and the raw text); \<open>msg\<close> is not empty when the error
  is a string or falsy.
\<close>

theorem sendMessage_rejects_and_reports:
  assumes b: "onSend_begin pf uuid (t_sentAt tm) s0 = Some (pend, s1)"
    and r: "send_request pf settings (p_text pend) = Inr req"
  shows "(fetch req = Rejected \<longrightarrow>
            sendMessage pf fetch t0 t1 settings (p_text pend) = Inl (Native FetchFailed))
   \<and> (\<forall>st body. fetch req = Response st body
          \<and> parse_body pf body \<noteq> Some JNull \<and> parse_body pf body \<noteq> Some JUndefined \<longrightarrow>
        ((\<exists>e. sendMessage pf fetch t0 t1 settings (p_text pend) = Inl e) \<longleftrightarrow>
           (\<not> resp_ok st \<or> parse_body pf body = None
            \<or> (\<exists>d. parse_body pf body = Some d \<and> js_get d (js ''success'') = JBool False)))
        \<and> (\<forall>msg.
              (\<not> resp_ok st \<or> parse_body pf body = None
               \<or> (\<exists>d. parse_body pf body = Some d \<and> js_get d (js ''success'') = JBool False))
              \<and> js_String pf (if truthy (js_get (response_data pf st body) (js ''error''))
                               then js_get (response_data pf st body) (js ''error'')
                               else JStr (js ''Erro HTTP '' @ show_nat st)) = Some msg \<longrightarrow>
              error (onSend pf fetch uuid tm t0 t1 settings s0) = Some msg
              \<and> (\<exists>a. messages (onSend pf fetch uuid tm t0 t1 settings s0)
                         = messages s0 @ [p_userMsg pend, a]
                    \<and> msg_role a = Assistant
                    \<and> msg_text a = js ''Erro ao chamar o backend: '' @ msg
                    \<and> msg_trace a = Some \<lparr>trace_url = req_url req, trace_method = js ''POST'',
                          trace_payload = send_payload settings (p_text pend), trace_status = st,
                          trace_ok = False, trace_json = response_data pf st body,
                          trace_rawText = body,
                          trace_timingMs = t_receivedAt tm - t_sentAt tm\<rparr>)
              \<and> ((\<exists>s. js_get (response_data pf st body) (js ''error'') = JStr s)
                   \<or> \<not> truthy (js_get (response_data pf st body) (js ''error'')) \<longrightarrow> msg \<noteq> []))
        \<and> (parse_body pf body = None \<longrightarrow>
              error (onSend pf fetch uuid tm t0 t1 settings s0)
                = Some (js ''Resposta inv'' @ [0xE1] @ js ''lida ('' @ show_nat st @ js '')'')
              \<and> (\<exists>a. messages (onSend pf fetch uuid tm t0 t1 settings s0)
                         = messages s0 @ [p_userMsg pend, a]
                    \<and> map_option trace_json (msg_trace a)
                        = Some (JObj [(js ''success'', JBool False), (js ''provider'', JStr (js ''simple'')),
                             (js ''error'', JStr (js ''Resposta inv'' @ [0xE1] @ js ''lida (''
                                                   @ show_nat st @ js '')''))])))
        \<and> (\<forall>d. parse_body pf body = Some d
                \<and> (\<not> resp_ok st \<or> js_get d (js ''success'') = JBool False)
                \<and> \<not> truthy (js_get d (js ''error'')) \<longrightarrow>
              error (onSend pf fetch uuid tm t0 t1 settings s0) = Some (js ''Erro HTTP '' @ show_nat st))
        \<and> (\<forall>d s. parse_body pf body = Some d
                \<and> (\<not> resp_ok st \<or> js_get d (js ''success'') = JBool False)
                \<and> js_get d (js ''error'') = JStr s \<and> s \<noteq> [] \<longrightarrow>
              error (onSend pf fetch uuid tm t0 t1 settings s0) = Some s))"
proof -
  note core = send_failure_reported [OF b r, of fetch t0 t1]
  from core have rej: "fetch req = Rejected \<longrightarrow>
            sendMessage pf fetch t0 t1 settings (p_text pend) = Inl (Native FetchFailed)"
    by (rule conjunct1)
  have resp: "\<And>st body. fetch req = Response st body
          \<and> parse_body pf body \<noteq> Some JNull \<and> parse_body pf body \<noteq> Some JUndefined \<Longrightarrow>
        ((\<exists>e. sendMessage pf fetch t0 t1 settings (p_text pend) = Inl e) \<longleftrightarrow>
           (\<not> resp_ok st \<or> parse_body pf body = None
            \<or> (\<exists>d. parse_body pf body = Some d \<and> js_get d (js ''success'') = JBool False)))
        \<and> (\<forall>msg.
              (\<not> resp_ok st \<or> parse_body pf body = None
               \<or> (\<exists>d. parse_body pf body = Some d \<and> js_get d (js ''success'') = JBool False))
              \<and> js_String pf (if truthy (js_get (response_data pf st body) (js ''error''))
                               then js_get (response_data pf st body) (js ''error'')
                               else JStr (js ''Erro HTTP '' @ show_nat st)) = Some msg \<longrightarrow>
              error (onSend pf fetch uuid tm t0 t1 settings s0) = Some msg
              \<and> (\<exists>a. messages (onSend pf fetch uuid tm t0 t1 settings s0)
                         = messages s0 @ [p_userMsg pend, a]
                    \<and> msg_role a = Assistant
                    \<and> msg_text a = js ''Erro ao chamar o backend: '' @ msg
                    \<and> msg_trace a = Some \<lparr>trace_url = req_url req, trace_method = js ''POST'',
                          trace_payload = send_payload settings (p_text pend), trace_status = st,
                          trace_ok = False, trace_json = response_data pf st body,
                          trace_rawText = body,
                          trace_timingMs = t_receivedAt tm - t_sentAt tm\<rparr>)
              \<and> ((\<exists>s. js_get (response_data pf st body) (js ''error'') = JStr s)
                   \<or> \<not> truthy (js_get (response_data pf st body) (js ''error'')) \<longrightarrow> msg \<noteq> []))"
    using core [THEN conjunct2] by blast
  show ?thesis
  proof (intro conjI allI impI)
    assume "fetch req = Rejected"
    with rej show "sendMessage pf fetch t0 t1 settings (p_text pend) = Inl (Native FetchFailed)" by simp
  next
    fix st body
    assume h: "fetch req = Response st body
          \<and> parse_body pf body \<noteq> Some JNull \<and> parse_body pf body \<noteq> Some JUndefined"
    note m = resp [OF h, THEN conjunct2, rule_format]
    from resp [OF h]
    show "(\<exists>e. sendMessage pf fetch t0 t1 settings (p_text pend) = Inl e) \<longleftrightarrow>
           (\<not> resp_ok st \<or> parse_body pf body = None
            \<or> (\<exists>d. parse_body pf body = Some d \<and> js_get d (js ''success'') = JBool False))"
      by (rule conjunct1)
    {
      fix msg
      assume a: "(\<not> resp_ok st \<or> parse_body pf body = None
               \<or> (\<exists>d. parse_body pf body = Some d \<and> js_get d (js ''success'') = JBool False))
              \<and> js_String pf (if truthy (js_get (response_data pf st body) (js ''error''))
                               then js_get (response_data pf st body) (js ''error'')
                               else JStr (js ''Erro HTTP '' @ show_nat st)) = Some msg"
      from m [OF a]
      show "error (onSend pf fetch uuid tm t0 t1 settings s0) = Some msg" by (rule conjunct1)
      from m [OF a]
      show "\<exists>a. messages (onSend pf fetch uuid tm t0 t1 settings s0)
                         = messages s0 @ [p_userMsg pend, a]
                    \<and> msg_role a = Assistant
                    \<and> msg_text a = js ''Erro ao chamar o backend: '' @ msg
                    \<and> msg_trace a = Some \<lparr>trace_url = req_url req, trace_method = js ''POST'',
                          trace_payload = send_payload settings (p_text pend), trace_status = st,
                          trace_ok = False, trace_json = response_data pf st body,
                          trace_rawText = body,
                          trace_timingMs = t_receivedAt tm - t_sentAt tm\<rparr>"
        by blast
      assume "(\<exists>s. js_get (response_data pf st body) (js ''error'') = JStr s)
                   \<or> \<not> truthy (js_get (response_data pf st body) (js ''error''))"
      with m [OF a] show "msg \<noteq> []" by blast
    }
    {
      assume n: "parse_body pf body = None"
      let ?msg = "js ''Resposta inv'' @ [0xE1] @ js ''lida ('' @ show_nat st @ js '')''"
      have d: "response_data pf st body = invalid_response st" using n by (rule parse_failure_data)
      have a: "(\<not> resp_ok st \<or> parse_body pf body = None
               \<or> (\<exists>d. parse_body pf body = Some d \<and> js_get d (js ''success'') = JBool False))
              \<and> js_String pf (if truthy (js_get (response_data pf st body) (js ''error''))
                               then js_get (response_data pf st body) (js ''error'')
                               else JStr (js ''Erro HTTP '' @ show_nat st)) = Some ?msg"
        using n by (simp add: d invalid_response_error js_String_def js_Nil_iff)
      from m [OF a]
      show "error (onSend pf fetch uuid tm t0 t1 settings s0) = Some ?msg" by (rule conjunct1)
      from m [OF a] obtain x where
        x: "messages (onSend pf fetch uuid tm t0 t1 settings s0) = messages s0 @ [p_userMsg pend, x]"
        and t: "msg_trace x = Some \<lparr>trace_url = req_url req, trace_method = js ''POST'',
                          trace_payload = send_payload settings (p_text pend), trace_status = st,
                          trace_ok = False, trace_json = response_data pf st body,
                          trace_rawText = body,
                          trace_timingMs = t_receivedAt tm - t_sentAt tm\<rparr>" by blast
      from x t show "\<exists>a. messages (onSend pf fetch uuid tm t0 t1 settings s0)
                         = messages s0 @ [p_userMsg pend, a]
                    \<and> map_option trace_json (msg_trace a)
                        = Some (JObj [(js ''success'', JBool False), (js ''provider'', JStr (js ''simple'')),
                             (js ''error'', JStr (js ''Resposta inv'' @ [0xE1] @ js ''lida (''
                                                   @ show_nat st @ js '')''))])"
        by (simp add: d invalid_response_def)
    }
    {
      fix d
      assume p: "parse_body pf body = Some d
                \<and> (\<not> resp_ok st \<or> js_get d (js ''success'') = JBool False)
                \<and> \<not> truthy (js_get d (js ''error''))"
      then have d: "response_data pf st body = d" by (simp add: response_data_def)
      have a: "(\<not> resp_ok st \<or> parse_body pf body = None
               \<or> (\<exists>d. parse_body pf body = Some d \<and> js_get d (js ''success'') = JBool False))
              \<and> js_String pf (if truthy (js_get (response_data pf st body) (js ''error''))
                               then js_get (response_data pf st body) (js ''error'')
                               else JStr (js ''Erro HTTP '' @ show_nat st)) = Some (js ''Erro HTTP '' @ show_nat st)"
        using p by (auto simp: d js_String_def)
      from m [OF a]
      show "error (onSend pf fetch uuid tm t0 t1 settings s0) = Some (js ''Erro HTTP '' @ show_nat st)"
        by (rule conjunct1)
    }
    {
      fix d s
      assume p: "parse_body pf body = Some d
                \<and> (\<not> resp_ok st \<or> js_get d (js ''success'') = JBool False)
                \<and> js_get d (js ''error'') = JStr s \<and> s \<noteq> []"
      then have d: "response_data pf st body = d" by (simp add: response_data_def)
      have a: "(\<not> resp_ok st \<or> parse_body pf body = None
               \<or> (\<exists>d. parse_body pf body = Some d \<and> js_get d (js ''success'') = JBool False))
              \<and> js_String pf (if truthy (js_get (response_data pf st body) (js ''error''))
                               then js_get (response_data pf st body) (js ''error'')
                               else JStr (js ''Erro HTTP '' @ show_nat st)) = Some s"
        using p by (auto simp: d js_String_def)
      from m [OF a]
      show "error (onSend pf fetch uuid tm t0 t1 settings s0) = Some s"
        by (rule conjunct1)
    }
  qed
qed

theorem sendMessage_rejects_and_reports_witness:
  "error (onSend example_platform
            (\<lambda>r. Response 500 (Some (js ''{\"success\":false,\"provider\":\"simple\",\"error\":\"boom\"}'')))
            example_uuid example_times 0 1 example_settings example_chat) = Some (js ''boom'')
   \<and> map msg_role (messages (onSend example_platform
            (\<lambda>r. Response 500 (Some (js ''{\"success\":false,\"provider\":\"simple\",\"error\":\"boom\"}'')))
            example_uuid example_times 0 1 example_settings example_chat)) = [System, User, Assistant]
   \<and> map_option trace_status (msg_trace (last (messages (onSend example_platform
            (\<lambda>r. Response 500 (Some (js ''{\"success\":false,\"provider\":\"simple\",\"error\":\"boom\"}'')))
            example_uuid example_times 0 1 example_settings example_chat)))) = Some 500
   \<and> map_option trace_url (msg_trace (last (messages (onSend example_platform
            (\<lambda>r. Response 500 (Some (js ''{\"success\":false,\"provider\":\"simple\",\"error\":\"boom\"}'')))
            example_uuid example_times 0 1 example_settings example_chat))))
       = Some (js ''/v1/messages/simple/acme'')
   \<and> sendMessage example_platform (\<lambda>r. Rejected) 0 1 example_settings (js ''oi'')
       = Inl (Native FetchFailed)
   \<and> error (onSend example_platform (\<lambda>r. Response 502 (Some (js ''Bad Gateway'')))
            example_uuid example_times 0 1 example_settings example_chat)
       = Some (js ''Resposta inv'' @ [0xE1] @ js ''lida (502)'')"
proof -
  let ?body = "js ''{\"success\":false,\"provider\":\"simple\",\"error\":\"boom\"}''"
  let ?fetch = "\<lambda>r::http_request. Response 500 (Some ?body)"
  let ?req = "\<lparr>req_url = js ''/v1/messages/simple/acme'', req_method = js ''POST'',
                req_headers = [(js ''Content-Type'', js ''application/json'')],
            req_body = js ''{\"message\":\"oi\",\"customer_phone\":\"5511999999999\"}''\<rparr>"
  from example_begin obtain pend s1 where
    b: "onSend_begin example_platform example_uuid (t_sentAt example_times) example_chat = Some (pend, s1)"
    and t: "p_text pend = js ''oi''" and u: "msg_role (p_userMsg pend) = User" by blast
  have r: "send_request example_platform example_settings (p_text pend) = Inr ?req"
    unfolding t by (rule example_request)
  have p: "parse_body example_platform (Some ?body)
     = Some (JObj [(js ''success'', JBool False), (js ''provider'', JStr (js ''simple'')),
             (js ''error'', JStr (js ''boom''))])"
    by (simp add: parse_body_def example_platform_def example_json_def js_eq_iff)
  have d: "response_data example_platform 500 (Some ?body)
     = JObj [(js ''success'', JBool False), (js ''provider'', JStr (js ''simple'')),
             (js ''error'', JStr (js ''boom''))]"
    by (simp add: response_data_def p)
  note th = sendMessage_rejects_and_reports [OF b r, where fetch = ?fetch and ?t0.0 = 0 and ?t1.0 = 1]
  have pre: "?fetch ?req = Response 500 (Some ?body)
      \<and> parse_body example_platform (Some ?body) \<noteq> Some JNull
      \<and> parse_body example_platform (Some ?body) \<noteq> Some JUndefined"
    by (simp add: p)
  have fail: "(\<not> resp_ok 500 \<or> parse_body example_platform (Some ?body) = None
       \<or> (\<exists>d. parse_body example_platform (Some ?body) = Some d \<and> js_get d (js ''success'') = JBool False))
      \<and> js_String example_platform
           (if truthy (js_get (response_data example_platform 500 (Some ?body)) (js ''error''))
            then js_get (response_data example_platform 500 (Some ?body)) (js ''error'')
            else JStr (js ''Erro HTTP '' @ show_nat 500)) = Some (js ''boom'')"
    by (simp add: d js_eq_iff js_Nil_iff js_String_def resp_ok_def)
  note c = th [THEN conjunct2, rule_format, OF pre, THEN conjunct2, THEN conjunct1, rule_format, OF fail]
  from c have
    "error (onSend example_platform ?fetch example_uuid example_times 0 1 example_settings example_chat)
       = Some (js ''boom'')
     \<and> (\<exists>a. messages (onSend example_platform ?fetch example_uuid example_times 0 1 example_settings example_chat)
             = messages example_chat @ [p_userMsg pend, a]
           \<and> msg_role a = Assistant \<and> map_option trace_status (msg_trace a) = Some 500
           \<and> map_option trace_url (msg_trace a) = Some (js ''/v1/messages/simple/acme''))"
    by auto
  moreover
  from sendMessage_rejects_and_reports [OF b r, where fetch = "\<lambda>r. Rejected" and ?t0.0 = 0 and ?t1.0 = 1]
  have "sendMessage example_platform (\<lambda>r. Rejected) 0 1 example_settings (js ''oi'') = Inl (Native FetchFailed)"
    by (simp add: t)
  moreover
  have n: "parse_body example_platform (Some (js ''Bad Gateway'')) = None"
    by (simp add: parse_body_def example_platform_def example_json_def js_eq_iff)
  have pre2: "(\<lambda>r::http_request. Response 502 (Some (js ''Bad Gateway''))) ?req = Response 502 (Some (js ''Bad Gateway''))
      \<and> parse_body example_platform (Some (js ''Bad Gateway'')) \<noteq> Some JNull
      \<and> parse_body example_platform (Some (js ''Bad Gateway'')) \<noteq> Some JUndefined"
    by (simp add: n)
  have sn: "show_nat 502 = js ''502''"
    by (simp add: show_nat.simps [of 502] show_nat.simps [of 50] show_nat.simps [of 5] js_def)
  from sendMessage_rejects_and_reports [OF b r, where fetch = "\<lambda>r. Response 502 (Some (js ''Bad Gateway''))"
      and ?t0.0 = 0 and ?t1.0 = 1,
      THEN conjunct2, rule_format, OF pre2, THEN conjunct2, THEN conjunct2, THEN conjunct1, rule_format, OF n,
      THEN conjunct1]
  have "error (onSend example_platform (\<lambda>r. Response 502 (Some (js ''Bad Gateway'')))
            example_uuid example_times 0 1 example_settings example_chat)
       = Some (js ''Resposta inv'' @ [0xE1] @ js ''lida (502)'')"
    by (simp add: sn js_append)
  ultimately show ?thesis
    using u by (auto simp: example_chat_def system_message_def)
qed




end
